theory Spec2Isabelle
  imports Complex_Main
begin

section \<open>Text\<close>

text \<open>
  A Python \<open>str\<close> is the list of its code points. \<open>lit\<close> writes an ASCII literal.
  What \<open>str.upper()\<close>, \<open>str.lower()\<close> and \<open>repr\<close> do with the characters below 128
  is written out; what they do above 128 is read from the tables of the interpreter,
  which are not part of the repository and are a parameter here.
\<close>

type_synonym pystr = "nat list"

definition lit :: "string \<Rightarrow> pystr" where
  "lit s = map of_char s"

definition whitespace :: "nat list" where
  \<comment> \<open>the characters \<open>str.strip()\<close> and \<open>str.split()\<close> treat as whitespace
      (those of \<open>str.isspace()\<close>)\<close>
  "whitespace = [0x09, 0x0A, 0x0B, 0x0C, 0x0D, 0x1C, 0x1D, 0x1E, 0x1F, 0x20, 0x85, 0xA0,
                 0x1680, 0x2000, 0x2001, 0x2002, 0x2003, 0x2004, 0x2005, 0x2006, 0x2007,
                 0x2008, 0x2009, 0x200A, 0x2028, 0x2029, 0x202F, 0x205F, 0x3000]"

definition is_space :: "nat \<Rightarrow> bool" where
  "is_space c = (c \<in> set whitespace)"

record interpreter =
  upper_of :: "nat \<Rightarrow> pystr"
  \<comment> \<open>\<open>c.upper()\<close> for a character \<open>c\<close> above ASCII; it may be several characters\<close>
  lower_of :: "pystr \<Rightarrow> pystr"
  \<comment> \<open>\<open>s.lower()\<close> for a text \<open>s\<close> that has a character above ASCII\<close>
  printable :: "nat \<Rightarrow> bool"
  \<comment> \<open>\<open>c.isprintable()\<close> for a character \<open>c\<close> above ASCII\<close>

definition lower_char :: "nat \<Rightarrow> nat" where
  \<comment> \<open>the lower case of an ASCII character\<close>
  "lower_char c = (if 0x41 \<le> c \<and> c \<le> 0x5A then c + 0x20 else c)"

definition upper_char :: "interpreter \<Rightarrow> nat \<Rightarrow> pystr" where
  "upper_char I c =
     (if c < 128 then [if 0x61 \<le> c \<and> c \<le> 0x7A then c - 0x20 else c] else upper_of I c)"

definition lower :: "interpreter \<Rightarrow> pystr \<Rightarrow> pystr" where
  \<comment> \<open>\<open>str.lower()\<close>\<close>
  "lower I s = (if list_all (\<lambda>c. c < 128) s then map lower_char s else lower_of I s)"

definition upper :: "interpreter \<Rightarrow> pystr \<Rightarrow> pystr" where
  \<comment> \<open>\<open>str.upper()\<close>, which works character by character\<close>
  "upper I s = concat (map (upper_char I) s)"

definition strip :: "pystr \<Rightarrow> pystr" where
  \<comment> \<open>\<open>str.strip()\<close>: whitespace removed at both ends\<close>
  "strip s = rev (dropWhile is_space (rev (dropWhile is_space s)))"

fun startswith :: "pystr \<Rightarrow> pystr \<Rightarrow> bool" where
  "startswith s [] = True"
| "startswith [] (p # ps) = False"
| "startswith (c # cs) (p # ps) = (c = p \<and> startswith cs ps)"

fun contains :: "pystr \<Rightarrow> pystr \<Rightarrow> bool" where
  \<comment> \<open>\<open>pattern in text\<close>, written \<open>contains text pattern\<close>\<close>
  "contains [] p = (p = [])"
| "contains (c # cs) p = (startswith (c # cs) p \<or> contains cs p)"

definition upper_keeps_words :: "interpreter \<Rightarrow> bool" where
  \<comment> \<open>a fact of the Unicode tables: the upper case of a whitespace character is the
      character itself, that of any other character is not empty and has no whitespace\<close>
  "upper_keeps_words I =
     (\<forall>c. 128 \<le> c \<longrightarrow>
        (if is_space c then upper_of I c = [c]
         else upper_of I c \<noteq> [] \<and> list_all (\<lambda>x. \<not> is_space x) (upper_of I c)))"


section \<open>Exceptions\<close>

text \<open>
  An exception (an instance of a subclass of \<open>Exception\<close>) is its class name,
  \<open>type(e).__name__\<close>, and its message, \<open>str(e)\<close>.
\<close>

datatype exn = Exn (exn_class: pystr) (exn_str: pystr)

section \<open>Query validation (\<open>MySQLQueryInput.validate_query\<close>)\<close>

definition dangerous_patterns :: "pystr list" where
  "dangerous_patterns =
     [lit ''drop database'', lit ''drop schema'', lit ''drop table'', lit ''truncate table'',
      lit ''delete from'', lit ''format c:'', lit ''rm -rf'', lit ''shutdown'', lit ''system'',
      lit ''exec('', lit ''xp_cmdshell'']"

definition dangerous_message :: "pystr \<Rightarrow> pystr" where
  "dangerous_message pattern = lit ''Query contains potentially dangerous pattern: '' @ pattern"

definition validate_query :: "interpreter \<Rightarrow> pystr \<Rightarrow> exn + pystr" where
  "validate_query I v =
     (if v = [] \<or> strip v = [] then Inl (Exn (lit ''ValueError'') (lit ''Query cannot be empty''))
      else let query_lower = strip (lower I v) in
        (case find (\<lambda>pattern. contains query_lower pattern) dangerous_patterns of
           Some pattern \<Rightarrow> Inl (Exn (lit ''ValueError'') (dangerous_message pattern))
         | None \<Rightarrow> Inr v))"

section \<open>Splitting and joining\<close>

fun split_acc :: "pystr \<Rightarrow> pystr \<Rightarrow> pystr list" where
  \<comment> \<open>the token being read, then the text still to read\<close>
  "split_acc cur [] = (if cur = [] then [] else [cur])"
| "split_acc cur (c # cs) =
     (if is_space c then (if cur = [] then split_acc [] cs else cur # split_acc [] cs)
      else split_acc (cur @ [c]) cs)"

definition split :: "pystr \<Rightarrow> pystr list" where
  \<comment> \<open>\<open>str.split()\<close> without arguments: the maximal runs of non-whitespace\<close>
  "split s = split_acc [] s"

fun join :: "pystr \<Rightarrow> pystr list \<Rightarrow> pystr" where
  \<comment> \<open>\<open>sep.join(xs)\<close>\<close>
  "join sep [] = []"
| "join sep [x] = x"
| "join sep (x # y # ys) = x @ sep @ join sep (y # ys)"

definition nl :: pystr where
  "nl = [0x0A]"

section \<open>Values of the driver\<close>

text \<open>
  A cell of a result row is a value of the driver. \<open>PObj\<close> stands for every value
  that is neither \<open>None\<close>, a \<open>bool\<close>, an \<open>int\<close> nor a \<open>str\<close> (floats, decimals,
  dates, bytes): it is given by its \<open>str()\<close>, its \<open>repr()\<close> and its truth value.
\<close>

datatype pyval = PNone | PBool bool | PInt int | PStr pystr | PObj pystr pystr bool

definition digit :: "nat \<Rightarrow> nat" where
  "digit n = lit ''0123456789'' ! (n mod 10)"

function str_nat :: "nat \<Rightarrow> pystr" where
  "str_nat n = (if n < 10 then [digit n] else str_nat (n div 10) @ [digit n])"
  by pat_completeness auto
termination
  by (relation "measure id") auto

declare str_nat.simps [simp del]

definition str_int :: "int \<Rightarrow> pystr" where
  "str_int i = (if i < 0 then 0x2D # str_nat (nat (- i)) else str_nat (nat i))"

definition control_escapes :: "(nat \<times> pystr) list" where
  \<comment> \<open>how \<open>repr\<close> writes the ASCII control characters\<close>
  "control_escapes =
     [(0x00, lit ''x00''), (0x01, lit ''x01''), (0x02, lit ''x02''), (0x03, lit ''x03''),
      (0x04, lit ''x04''), (0x05, lit ''x05''), (0x06, lit ''x06''), (0x07, lit ''x07''),
      (0x08, lit ''x08''), (0x09, lit ''t''), (0x0A, lit ''n''), (0x0B, lit ''x0b''),
      (0x0C, lit ''x0c''), (0x0D, lit ''r''), (0x0E, lit ''x0e''), (0x0F, lit ''x0f''),
      (0x10, lit ''x10''), (0x11, lit ''x11''), (0x12, lit ''x12''), (0x13, lit ''x13''),
      (0x14, lit ''x14''), (0x15, lit ''x15''), (0x16, lit ''x16''), (0x17, lit ''x17''),
      (0x18, lit ''x18''), (0x19, lit ''x19''), (0x1A, lit ''x1a''), (0x1B, lit ''x1b''),
      (0x1C, lit ''x1c''), (0x1D, lit ''x1d''), (0x1E, lit ''x1e''), (0x1F, lit ''x1f''),
      (0x7F, lit ''x7f'')]"

fun hex :: "nat \<Rightarrow> nat \<Rightarrow> pystr" where
  \<comment> \<open>the last \<open>w\<close> hexadecimal digits of \<open>n\<close>\<close>
  "hex 0 n = []"
| "hex (Suc w) n = hex w (n div 16) @ [lit ''0123456789abcdef'' ! (n mod 16)]"

definition escape_above :: "nat \<Rightarrow> pystr" where
  \<comment> \<open>how \<open>repr\<close> writes a character above ASCII that is not printable\<close>
  "escape_above c =
     (if c < 0x100 then lit ''x'' @ hex 2 c
      else if c < 0x10000 then lit ''u'' @ hex 4 c
      else lit ''U'' @ hex 8 c)"

definition repr_char :: "interpreter \<Rightarrow> nat \<Rightarrow> nat \<Rightarrow> pystr" where
  "repr_char I quote c =
     (if c = 0x5C \<or> c = quote then [0x5C, c]
      else case map_of control_escapes c of
             Some esc \<Rightarrow> 0x5C # esc
           | None \<Rightarrow> if c < 128 \<or> printable I c then [c] else 0x5C # escape_above c)"

definition repr_str :: "interpreter \<Rightarrow> pystr \<Rightarrow> pystr" where
  \<comment> \<open>\<open>repr\<close> of a \<open>str\<close>: double quotes only when the text has a single quote and
      no double quote\<close>
  "repr_str I s =
     (let quote = (if 0x27 \<in> set s \<and> 0x22 \<notin> set s then 0x22 else 0x27)
      in quote # concat (map (repr_char I quote) s) @ [quote])"

fun str :: "pyval \<Rightarrow> pystr" where
  "str PNone = lit ''None''"
| "str (PBool b) = (if b then lit ''True'' else lit ''False'')"
| "str (PInt i) = str_int i"
| "str (PStr s) = s"
| "str (PObj s r t) = s"

fun repr :: "interpreter \<Rightarrow> pyval \<Rightarrow> pystr" where
  "repr I (PStr s) = repr_str I s"
| "repr I (PObj s r t) = r"
| "repr I v = str v"

fun truthy :: "pyval \<Rightarrow> bool" where
  "truthy PNone = False"
| "truthy (PBool b) = b"
| "truthy (PInt i) = (i \<noteq> 0)"
| "truthy (PStr s) = (s \<noteq> [])"
| "truthy (PObj s r t) = t"

type_synonym row = "pyval list"

definition repr_row :: "interpreter \<Rightarrow> row \<Rightarrow> pystr" where
  \<comment> \<open>\<open>repr\<close> of a list\<close>
  "repr_row I r = lit ''['' @ join (lit '', '') (map (repr I) r) @ lit '']''"

definition given :: "pystr option \<Rightarrow> bool" where
  \<comment> \<open>the truth value of an optional text: neither \<open>None\<close> nor empty\<close>
  "given x = (case x of None \<Rightarrow> False | Some s \<Rightarrow> s \<noteq> [])"

section \<open>The database driver\<close>

text \<open>
  \<open>aiomysql\<close> is not part of the repository. One call of the tool sees it through a
  \<open>driver\<close>: what each of its operations answers. Every operation may raise. Leaving
  the two \<open>async with\<close> blocks (closing the cursor, giving the connection back) is
  taken not to raise. The record also holds the clock and the tables of the interpreter
  the call runs in.
\<close>

type_synonym pool = nat

datatype type_code = TypeObj pystr | TypeInt int | TypeNone
  \<comment> \<open>\<open>desc[1]\<close> of a column descriptor: a class (by its \<open>__name__\<close>), an integer
      code, or \<open>None\<close>\<close>

record descriptor =
  desc_name :: pystr
  desc_type_code :: type_code
  desc_display_size :: pyval
  desc_internal_size :: pyval
  desc_precision :: pyval
  desc_scale :: pyval
  desc_null_ok :: pyval

record cursor_state =
  \<comment> \<open>the cursor after \<open>execute\<close> has returned\<close>
  result_rows :: "row list"
  fetch_raises :: "exn option"
  description :: "descriptor list option"
  rowcount :: int
  lastrowid :: "int option"

record driver =
  create_pool :: "exn + pool"
  acquire :: "exn option"
  cursor :: "exn option"
  execute :: "pystr \<Rightarrow> exn + cursor_state"
  time :: real
  runtime :: interpreter

definition fetchmany :: "cursor_state \<Rightarrow> int \<Rightarrow> exn + row list" where
  \<comment> \<open>the first fetch after \<open>execute\<close>: the next \<open>n\<close> rows, fewer when the result
      set ends; \<open>aiomysql\<close> reads size 0 as its array size 1 and a negative size as a
      slice bound counted from the end\<close>
  "fetchmany cur n =
     (case fetch_raises cur of
        Some e \<Rightarrow> Inl e
      | None \<Rightarrow> Inr (if n > 0 then take (nat n) (result_rows cur)
                     else if n = 0 then take 1 (result_rows cur)
                     else take (length (result_rows cur) - nat (- n)) (result_rows cur)))"

definition fetchall :: "cursor_state \<Rightarrow> exn + row list" where
  "fetchall cur =
     (case fetch_raises cur of Some e \<Rightarrow> Inl e | None \<Rightarrow> Inr (result_rows cur))"

section \<open>The tool and its connection pool\<close>

record tool =
  connection_pool :: "pool option"
  \<comment> \<open>\<open>self._connection_pool\<close>\<close>
  open_pools :: "pool list"
  \<comment> \<open>the pools this tool has created and not closed\<close>
  statements :: "pystr list"
  \<comment> \<open>the texts passed to \<open>cursor.execute\<close>, oldest first\<close>

definition new_tool :: tool where
  \<comment> \<open>\<open>MySQLTool.__init__\<close>\<close>
  "new_tool = \<lparr>connection_pool = None, open_pools = [], statements = []\<rparr>"

definition get_connection_pool :: "driver \<Rightarrow> tool \<Rightarrow> (exn + pool) \<times> tool" where
  "get_connection_pool d self =
     (case connection_pool self of
        Some p \<Rightarrow> (Inr p, self)
      | None \<Rightarrow>
          (case create_pool d of
             Inl e \<Rightarrow> (Inl e, self)
           | Inr p \<Rightarrow> (Inr p, self\<lparr>connection_pool := Some p,
                                    open_pools := open_pools self @ [p]\<rparr>)))"

definition close_connection_pool :: "tool \<Rightarrow> tool" where
  "close_connection_pool self =
     (case connection_pool self of
        None \<Rightarrow> self
      | Some p \<Rightarrow> self\<lparr>connection_pool := None, open_pools := remove1 p (open_pools self)\<rparr>)"

datatype pool_op = Acquire | Close

fun pool_step :: "tool \<Rightarrow> driver \<times> pool_op \<Rightarrow> tool" where
  "pool_step self (d, Acquire) = snd (get_connection_pool d self)"
| "pool_step self (d, Close) = close_connection_pool self"

definition pool_run :: "(driver \<times> pool_op) list \<Rightarrow> tool \<Rightarrow> tool" where
  \<comment> \<open>a sequence of acquire and close operations, each against the driver of its moment\<close>
  "pool_run ops self = foldl pool_step self ops"

section \<open>The query result record\<close>

record column =
  col_name :: pystr
  col_type :: pystr
  col_display_size :: pyval
  col_internal_size :: pyval
  col_precision :: pyval
  col_scale :: pyval
  col_null_ok :: pyval

datatype column_entry = ColDict column | ColName pystr
  \<comment> \<open>an entry of \<open>result["columns"]\<close>: a dict for a SELECT, a bare name otherwise\<close>

text \<open>The result is a dict; a key that is absent is \<open>None\<close> here.\<close>

record result =
  query :: "pystr option"
  query_type :: "pystr option"
  success :: "bool option"
  timestamp :: "real option"
  rows :: "row list option"
  row_count :: "nat option"
  limited :: "bool option"
  columns :: "column_entry list option"
  affected_rows :: "int option"
  last_insert_id :: "int option option"
  ddl_executed :: "bool option"
  message :: "pystr option"
  error :: "pystr option"
  error_type :: "pystr option"

definition empty_result :: result where
  "empty_result =
     \<lparr>query = None, query_type = None, success = None, timestamp = None, rows = None,
      row_count = None, limited = None, columns = None, affected_rows = None,
      last_insert_id = None, ddl_executed = None, message = None, error = None,
      error_type = None\<rparr>"

definition failure_result :: "pystr \<Rightarrow> exn \<Rightarrow> real \<Rightarrow> result" where
  \<comment> \<open>the dict built by the \<open>except Exception\<close> handler of \<open>_execute_query\<close>\<close>
  "failure_result q e t =
     empty_result\<lparr>query := Some q, success := Some False, error := Some (exn_str e),
                  error_type := Some (exn_class e), timestamp := Some t\<rparr>"

section \<open>The query executor (\<open>MySQLTool._execute_query\<close>)\<close>

definition first_token :: "interpreter \<Rightarrow> pystr \<Rightarrow> exn + pystr" where
  \<comment> \<open>\<open>query.strip().upper().split()[0]\<close>\<close>
  "first_token I q =
     (case split (upper I (strip q)) of
        [] \<Rightarrow> Inl (Exn (lit ''IndexError'') (lit ''list index out of range''))
      | t # ts \<Rightarrow> Inr t)"

datatype statement_kind = Read | Mutation | Definition | Other

definition statement_kind :: "pystr \<Rightarrow> statement_kind" where
  \<comment> \<open>the \<open>if\<close>/\<open>elif\<close> chain on \<open>query_type\<close>\<close>
  "statement_kind t =
     (if t = lit ''SELECT'' then Read
      else if t \<in> set [lit ''INSERT'', lit ''UPDATE'', lit ''DELETE''] then Mutation
      else if t \<in> set [lit ''CREATE'', lit ''ALTER'', lit ''DROP''] then Definition
      else Other)"

definition type_name :: "type_code \<Rightarrow> exn + pystr" where
  \<comment> \<open>\<open>desc[1].__name__ if desc[1] else "unknown"\<close>\<close>
  "type_name tc =
     (case tc of
        TypeObj n \<Rightarrow> Inr n
      | TypeNone \<Rightarrow> Inr (lit ''unknown'')
      | TypeInt i \<Rightarrow>
          if i = 0 then Inr (lit ''unknown'')
          else Inl (Exn (lit ''AttributeError'')
                      (0x27 # lit ''int'' @ 0x27 # lit '' object has no attribute ''
                       @ 0x27 # lit ''__name__'' @ [0x27])))"

fun select_columns :: "descriptor list \<Rightarrow> exn + column_entry list" where
  "select_columns [] = Inr []"
| "select_columns (desc # descs) =
     (case type_name (desc_type_code desc) of
        Inl e \<Rightarrow> Inl e
      | Inr tn \<Rightarrow>
          (case select_columns descs of
             Inl e \<Rightarrow> Inl e
           | Inr cols \<Rightarrow>
               Inr (ColDict \<lparr>col_name = desc_name desc, col_type = tn,
                              col_display_size = desc_display_size desc,
                              col_internal_size = desc_internal_size desc,
                              col_precision = desc_precision desc,
                              col_scale = desc_scale desc,
                              col_null_ok = desc_null_ok desc\<rparr> # cols)))"

definition descriptors :: "cursor_state \<Rightarrow> descriptor list" where
  \<comment> \<open>\<open>cursor.description\<close>, which is false when \<open>None\<close> or empty\<close>
  "descriptors cur = (case description cur of None \<Rightarrow> [] | Some ds \<Rightarrow> ds)"

definition shape_result ::
  "interpreter \<Rightarrow> cursor_state \<Rightarrow> pystr \<Rightarrow> int \<Rightarrow> bool \<Rightarrow> real \<Rightarrow> exn + result" where
  \<comment> \<open>the guarded region after \<open>cursor.execute(query)\<close> has returned\<close>
  "shape_result I cur q limit fetch_metadata t =
     (case first_token I q of
        Inl e \<Rightarrow> Inl e
      | Inr qt \<Rightarrow>
          (let res = empty_result\<lparr>query := Some q, query_type := Some qt,
                                   success := Some True, timestamp := Some t\<rparr>
           in case statement_kind qt of
                Read \<Rightarrow>
                  (case fetchmany cur limit of
                     Inl e \<Rightarrow> Inl e
                   | Inr rs \<Rightarrow>
                       (let res1 = res\<lparr>rows := Some (if rs \<noteq> [] then rs else []),
                                        row_count := Some (if rs \<noteq> [] then length rs else 0),
                                        limited := Some (if rs \<noteq> [] then int (length rs) = limit
                                                         else False)\<rparr>
                        in if fetch_metadata \<and> descriptors cur \<noteq> []
                           then (case select_columns (descriptors cur) of
                                   Inl e \<Rightarrow> Inl e
                                 | Inr cols \<Rightarrow> Inr (res1\<lparr>columns := Some cols\<rparr>))
                           else Inr res1))
              | Mutation \<Rightarrow>
                  Inr (res\<lparr>affected_rows := Some (rowcount cur),
                           last_insert_id := Some (lastrowid cur)\<rparr>)
              | Definition \<Rightarrow>
                  Inr (res\<lparr>ddl_executed := Some True,
                           message := Some (lit ''DDL statement executed successfully'')\<rparr>)
              | Other \<Rightarrow>
                  (case fetchall cur of
                     Inl e \<Rightarrow> Inl e
                   | Inr rs \<Rightarrow>
                       (let res1 = res\<lparr>rows := Some (if rs \<noteq> [] then rs else []),
                                        row_count := Some (if rs \<noteq> [] then length rs else 0)\<rparr>
                        in if fetch_metadata \<and> descriptors cur \<noteq> []
                           then Inr (res1\<lparr>columns :=
                                     Some (map (\<lambda>desc. ColName (desc_name desc))
                                             (descriptors cur))\<rparr>)
                           else Inr res1))))"

definition cursor_execute :: "driver \<Rightarrow> pystr \<Rightarrow> tool \<Rightarrow> (exn + cursor_state) \<times> tool" where
  \<comment> \<open>\<open>await cursor.execute(sql)\<close>: the text reaches the server, which answers\<close>
  "cursor_execute d sql self = (execute d sql, self\<lparr>statements := statements self @ [sql]\<rparr>)"

definition use_database :: "driver \<Rightarrow> pystr option \<Rightarrow> tool \<Rightarrow> exn option \<times> tool" where
  \<comment> \<open>\<open>if database: await cursor.execute(f"USE {database}")\<close>\<close>
  "use_database d database self =
     (case database of
        None \<Rightarrow> (None, self)
      | Some db \<Rightarrow>
          if db = [] then (None, self)
          else (case cursor_execute d (lit ''USE '' @ db) self of
                  (Inl e, self1) \<Rightarrow> (Some e, self1)
                | (Inr cur, self1) \<Rightarrow> (None, self1)))"

definition try_body ::
  "driver \<Rightarrow> pystr \<Rightarrow> pystr option \<Rightarrow> int \<Rightarrow> bool \<Rightarrow> tool \<Rightarrow> (exn + result) \<times> tool" where
  \<comment> \<open>the body of the \<open>try\<close> of \<open>_execute_query\<close>\<close>
  "try_body d q database limit fetch_metadata self =
     (case use_database d database self of
        (Some e, self1) \<Rightarrow> (Inl e, self1)
      | (None, self1) \<Rightarrow>
          (case cursor_execute d q self1 of
             (Inl e, self2) \<Rightarrow> (Inl e, self2)
           | (Inr cur, self2) \<Rightarrow> (shape_result (runtime d) cur q limit fetch_metadata (time d), self2)))"

definition execute_query ::
  "driver \<Rightarrow> pystr \<Rightarrow> pystr option \<Rightarrow> int \<Rightarrow> bool \<Rightarrow> tool \<Rightarrow> (exn + result) \<times> tool" where
  "execute_query d q database limit fetch_metadata self =
     (case get_connection_pool d self of
        (Inl e, self1) \<Rightarrow> (Inl e, self1)
      | (Inr p, self1) \<Rightarrow>
          (case acquire d of
             Some e \<Rightarrow> (Inl e, self1)
           | None \<Rightarrow>
               (case cursor d of
                  Some e \<Rightarrow> (Inl e, self1)
                | None \<Rightarrow>
                    (case try_body d q database limit fetch_metadata self1 of
                       (Inr res, self2) \<Rightarrow> (Inr res, self2)
                     | (Inl e, self2) \<Rightarrow> (Inr (failure_result q e (time d)), self2)))))"

section \<open>The result formatter (\<open>MySQLTool._format_result\<close>)\<close>

definition check_mark :: pystr where
  "check_mark = [0x2705]"

definition cross_mark :: pystr where
  "cross_mark = [0x274C]"

definition bullet :: pystr where
  "bullet = [0x2022]"

definition books :: pystr where
  "books = [0x1F4DA]"

definition clipboard :: pystr where
  "clipboard = [0x1F4CB]"

definition magnifier :: pystr where
  "magnifier = [0x1F50D]"

definition get_or :: "'a option \<Rightarrow> 'a \<Rightarrow> 'a" where
  \<comment> \<open>\<open>dict.get(key, default)\<close>\<close>
  "get_or x dflt = (case x of None \<Rightarrow> dflt | Some v \<Rightarrow> v)"

definition column_label :: "column_entry \<Rightarrow> pystr" where
  \<comment> \<open>\<open>col["name"] if isinstance(col, dict) else str(col)\<close>\<close>
  "column_label col = (case col of ColDict c \<Rightarrow> col_name c | ColName n \<Rightarrow> n)"

definition format_select :: "interpreter \<Rightarrow> result \<Rightarrow> pystr" where
  "format_select I result =
     lit ''Rows returned: '' @ str_nat (get_or (row_count result) 0)
     @ (if get_or (limited result) False then lit '' (limited)'' else [])
     @ nl
     @ (let cols = get_or (columns result) []
        in if cols \<noteq> [] then lit ''Columns: '' @ join (lit '', '') (map column_label cols) @ nl else [])
     @ (let rs = get_or (rows result) []
        in if rs \<noteq> []
           then nl @ lit ''Data:'' @ nl
                @ concat (map (\<lambda>(i, r). lit ''  Row '' @ str_nat (i + 1) @ lit '': '' @ repr_row I r @ nl)
                            (enumerate 0 (take 5 rs)))
                @ (if length rs > 5
                   then lit ''  ... and '' @ str_nat (length rs - 5) @ lit '' more rows'' @ nl
                   else [])
           else [])"

definition format_mutation :: "result \<Rightarrow> pystr" where
  "format_mutation result =
     lit ''Affected rows: '' @ str_int (get_or (affected_rows result) 0) @ nl
     @ (case get_or (last_insert_id result) None of
          None \<Rightarrow> []
        | Some last_id \<Rightarrow>
            if last_id \<noteq> 0 then lit ''Last insert ID: '' @ str_int last_id @ nl else [])"

definition format_other :: "interpreter \<Rightarrow> result \<Rightarrow> pystr" where
  "format_other I result =
     (let rs = get_or (rows result) []
      in lit ''Rows returned: '' @ str_nat (length rs) @ nl
         @ (if rs \<noteq> []
            then lit ''Results:'' @ nl
                 @ concat (map (\<lambda>(i, r). lit ''  '' @ str_nat (i + 1) @ lit ''. '' @ repr_row I r @ nl)
                             (enumerate 0 (take 10 rs)))
            else []))"

definition format_result :: "interpreter \<Rightarrow> result \<Rightarrow> pystr" where
  "format_result I result =
     (if \<not> get_or (success result) False
      then cross_mark @ lit '' MySQL Error: '' @ get_or (error result) (lit ''Unknown error'') @ nl
           @ lit ''Query: '' @ get_or (query result) (lit ''N/A'')
      else
        (let qt = get_or (query_type result) (lit ''UNKNOWN'');
             formatted = check_mark @ lit '' MySQL '' @ qt @ lit '' Query Executed Successfully'' @ nl
                         @ lit ''Query: '' @ get_or (query result) (lit ''N/A'') @ nl
         in if qt = lit ''SELECT'' then formatted @ format_select I result
            else if qt \<in> set [lit ''INSERT'', lit ''UPDATE'', lit ''DELETE'']
              then formatted @ format_mutation result
            else if get_or (ddl_executed result) False
              then formatted @ get_or (message result) (lit ''DDL executed successfully'') @ nl
            else formatted @ format_other I result))"

definition format_result_call :: "interpreter \<Rightarrow> result \<Rightarrow> pystr \<times> result" where
  \<comment> \<open>one call of the formatter on the dict it is handed: the text returned and the
      dict as the call leaves it; the source only reads the dict (\<open>get\<close>, slices, \<open>len\<close>)\<close>
  "format_result_call I result = (format_result I result, result)"

definition arun ::
  "driver \<Rightarrow> pystr \<Rightarrow> pystr option \<Rightarrow> int \<Rightarrow> bool \<Rightarrow> tool \<Rightarrow> pystr \<times> tool" where
  \<comment> \<open>\<open>MySQLTool._arun\<close>\<close>
  "arun d q database limit fetch_metadata self =
     (case execute_query d q database limit fetch_metadata self of
        (Inr result, self1) \<Rightarrow> (format_result (runtime d) result, self1)
      | (Inl e, self1) \<Rightarrow>
          (cross_mark @ lit '' MySQL Tool Error: '' @ exn_str e @ nl @ lit ''Query: '' @ q, self1))"

section \<open>The event stream (\<open>MySQLTool.astream_events\<close>)\<close>

datatype event =
    MetadataEvent (ev_query: "pystr option") (ev_query_type: "pystr option")
                  (ev_columns: "column_entry list") (ev_success: bool)
                  (ev_error: "pystr option")
  | RowEvent (ev_index: nat) (ev_row: row)
  | SummaryEvent (ev_row_count: nat) (ev_limited: bool) (ev_affected_rows: "int option")
                 (ev_last_insert_id: "int option") (ev_ddl_executed: bool)
                 (ev_message: "pystr option")
  | ErrorEvent (ev_error_text: pystr) (ev_error_type: pystr)

definition metadata_event :: "result \<Rightarrow> event" where
  "metadata_event result =
     MetadataEvent (query result) (query_type result) (get_or (columns result) [])
                   (get_or (success result) False) (error result)"

definition row_events :: "result \<Rightarrow> event list" where
  "row_events result =
     (if get_or (success result) False \<and> query_type result = Some (lit ''SELECT'')
      then map (\<lambda>(i, r). RowEvent i r) (enumerate 0 (get_or (rows result) []))
      else [])"

definition summary_event :: "result \<Rightarrow> event" where
  "summary_event result =
     SummaryEvent (get_or (row_count result) 0) (get_or (limited result) False)
                  (affected_rows result) (get_or (last_insert_id result) None)
                  (get_or (ddl_executed result) False) (message result)"

definition astream_events ::
  "driver \<Rightarrow> pystr \<Rightarrow> pystr option \<Rightarrow> int \<Rightarrow> bool \<Rightarrow> tool \<Rightarrow> event list \<times> tool" where
  \<comment> \<open>the events of the generator, in the order it yields them, when read to its end\<close>
  "astream_events d input config limit fetch_metadata self =
     (case execute_query d input config limit fetch_metadata self of
        (Inr result, self1) \<Rightarrow>
          (metadata_event result # row_events result @ [summary_event result], self1)
      | (Inl e, self1) \<Rightarrow> ([ErrorEvent (exn_str e) (exn_class e)], self1))"

section \<open>The schema inspector (\<open>MySQLSchemaTool._arun\<close>)\<close>

definition fmt :: "pystr option \<Rightarrow> pystr" where
  \<comment> \<open>an optional text inside an f-string\<close>
  "fmt x = (case x of None \<Rightarrow> lit ''None'' | Some s \<Rightarrow> s)"

definition schema_error :: "exn \<Rightarrow> pystr" where
  "schema_error e = cross_mark @ lit '' MySQL Schema Tool Error: '' @ exn_str e"

fun first_values :: "row list \<Rightarrow> exn + pyval list" where
  \<comment> \<open>\<open>[row[0] for row in rows]\<close>\<close>
  "first_values [] = Inr []"
| "first_values ([] # rs) = Inl (Exn (lit ''IndexError'') (lit ''list index out of range''))"
| "first_values ((v # vs) # rs) =
     (case first_values rs of Inl e \<Rightarrow> Inl e | Inr ws \<Rightarrow> Inr (v # ws))"

definition bullets :: "pyval list \<Rightarrow> pystr" where
  "bullets vs = join nl (map (\<lambda>v. lit ''  '' @ bullet @ lit '' '' @ str v) vs)"

definition unpack_error :: "nat \<Rightarrow> exn" where
  \<comment> \<open>what unpacking a list of \<open>n \<noteq> 6\<close> values into six names raises\<close>
  "unpack_error n =
     (if n < 6
      then Exn (lit ''ValueError'') (lit ''not enough values to unpack (expected 6, got '' @ str_nat n @ lit '')'')
      else Exn (lit ''ValueError'') (lit ''too many values to unpack (expected 6)''))"

definition describe_line :: "row \<Rightarrow> exn + pystr" where
  "describe_line r =
     (case r of
        [field, type_, null, key, dflt, extra] \<Rightarrow>
          Inr (lit ''  '' @ bullet @ lit '' '' @ str field @ lit '': '' @ str type_
               @ (if truthy key then lit '' ('' @ str key @ lit '')'' else [])
               @ (if null = PStr (lit ''NO'') then lit '' NOT NULL'' else [])
               @ (if dflt \<noteq> PNone then lit '' DEFAULT '' @ str dflt else [])
               @ (if truthy extra then lit '' '' @ str extra else [])
               @ nl)
      | _ \<Rightarrow> Inl (unpack_error (length r)))"

fun describe_lines :: "row list \<Rightarrow> exn + pystr" where
  "describe_lines [] = Inr []"
| "describe_lines (r # rs) =
     (case describe_line r of
        Inl e \<Rightarrow> Inl e
      | Inr l \<Rightarrow> (case describe_lines rs of Inl e \<Rightarrow> Inl e | Inr ls \<Rightarrow> Inr (l @ ls)))"

definition list_databases :: "driver \<Rightarrow> tool \<Rightarrow> pystr \<times> tool" where
  "list_databases d self =
     (case execute_query d (lit ''SHOW DATABASES'') None 100 True self of
        (Inl e, self1) \<Rightarrow> (schema_error e, self1)
      | (Inr result, self1) \<Rightarrow>
          if get_or (success result) False
          then (case first_values (get_or (rows result) []) of
                  Inl e \<Rightarrow> (schema_error e, self1)
                | Inr databases \<Rightarrow>
                    (books @ lit '' Available Databases:'' @ nl @ bullets databases, self1))
          else (cross_mark @ lit '' Error listing databases: '' @ fmt (error result), self1))"

definition list_tables :: "driver \<Rightarrow> pystr option \<Rightarrow> tool \<Rightarrow> pystr \<times> tool" where
  "list_tables d database self =
     (case execute_query d (lit ''SHOW TABLES FROM '' @ fmt database) None 100 True self of
        (Inl e, self1) \<Rightarrow> (schema_error e, self1)
      | (Inr result, self1) \<Rightarrow>
          if get_or (success result) False
          then (case first_values (get_or (rows result) []) of
                  Inl e \<Rightarrow> (schema_error e, self1)
                | Inr tables \<Rightarrow>
                    (clipboard @ lit '' Tables in database '' @ [0x27] @ fmt database
                     @ [0x27] @ lit '':'' @ nl @ bullets tables, self1))
          else (cross_mark @ lit '' Error listing tables: '' @ fmt (error result), self1))"

definition describe_table :: "driver \<Rightarrow> pystr option \<Rightarrow> pystr option \<Rightarrow> tool \<Rightarrow> pystr \<times> tool" where
  "describe_table d database table self =
     (let db_prefix = (if given database then fmt database @ lit ''.'' else []);
          q = lit ''DESCRIBE '' @ db_prefix @ fmt table
      in case execute_query d q database 100 True self of
           (Inl e, self1) \<Rightarrow> (schema_error e, self1)
         | (Inr result, self1) \<Rightarrow>
             if get_or (success result) False
             then (let rs = get_or (rows result) []
                   in if rs \<noteq> []
                      then (case describe_lines rs of
                              Inl e \<Rightarrow> (schema_error e, self1)
                            | Inr ls \<Rightarrow>
                                (magnifier @ lit '' Schema for table '' @ [0x27] @ fmt table
                                 @ [0x27] @ lit '':'' @ nl @ ls, self1))
                      else (clipboard @ lit '' Table '' @ [0x27] @ fmt table @ [0x27]
                            @ lit '' has no columns or doesn'' @ [0x27] @ lit ''t exist'', self1))
             else (cross_mark @ lit '' Error describing table: '' @ fmt (error result), self1))"

definition schema_arun ::
  "driver \<Rightarrow> pystr option \<Rightarrow> pystr option \<Rightarrow> bool \<Rightarrow> tool \<Rightarrow> pystr \<times> tool" where
  \<comment> \<open>\<open>self\<close> is the \<open>MySQLTool\<close> the schema tool owns\<close>
  "schema_arun d database table include_data_types self =
     (if \<not> given database \<and> \<not> given table then list_databases d self
      else if given database \<and> \<not> given table then list_tables d database self
      else describe_table d database table self)"

section \<open>Tool dispatch (\<open>handle_call_tool\<close>)\<close>

record arguments =
  \<comment> \<open>the argument dict of a call; a key that is absent is \<open>None\<close>\<close>
  arg_query :: "pystr option"
  arg_database :: "pystr option"
  arg_limit :: "int option"
  arg_fetch_metadata :: "bool option"
  arg_table :: "pystr option"
  arg_include_data_types :: "bool option"

definition no_arguments :: arguments where
  "no_arguments =
     \<lparr>arg_query = None, arg_database = None, arg_limit = None, arg_fetch_metadata = None,
      arg_table = None, arg_include_data_types = None\<rparr>"

record server =
  mysql_tool :: tool
  schema_tool :: tool
  \<comment> \<open>the \<open>MySQLTool\<close> inside \<open>self.schema_tool\<close>\<close>

definition handle_call_tool ::
  "driver \<Rightarrow> pystr \<Rightarrow> arguments option \<Rightarrow> server \<Rightarrow> pystr list \<times> server" where
  "handle_call_tool d name arguments srv =
     (let args = get_or arguments no_arguments
      in if name = lit ''mysql_query''
         then (case arun d (get_or (arg_query args) []) (arg_database args)
                         (get_or (arg_limit args) 100) (get_or (arg_fetch_metadata args) True)
                         (mysql_tool srv) of
                 (text, self1) \<Rightarrow> ([text], srv\<lparr>mysql_tool := self1\<rparr>))
         else if name = lit ''mysql_schema''
         then (case schema_arun d (arg_database args) (arg_table args)
                         (get_or (arg_include_data_types args) True) (schema_tool srv) of
                 (text, self1) \<Rightarrow> ([text], srv\<lparr>schema_tool := self1\<rparr>))
         else ([lit ''Error executing '' @ name @ lit '': Unknown tool: '' @ name], srv))"

section \<open>Interpreter and drivers of the examples\<close>

definition excerpt :: interpreter where
  \<comment> \<open>an excerpt of the tables of the interpreter: the characters named here have their
      Unicode case; the examples use no other character above ASCII\<close>
  "excerpt =
     \<lparr>upper_of = (\<lambda>c. if c = 0xDF then lit ''SS'' else if c = 0x131 then lit ''I''
                      else if c = 0x17F then lit ''S'' else [c]),
      lower_of = (\<lambda>s. concat (map (\<lambda>c. if c = 0x130 then [0x69, 0x307]
                                        else if c = 0x212A then [0x6B]
                                        else [lower_char c]) s)),
      printable = (\<lambda>c. \<not> is_space c)\<rparr>"

definition plain_cursor :: "row list \<Rightarrow> cursor_state" where
  "plain_cursor rs =
     \<lparr>result_rows = rs, fetch_raises = None, description = None, rowcount = 0,
      lastrowid = None\<rparr>"

definition serving :: "row list \<Rightarrow> driver" where
  \<comment> \<open>a server that is up and answers every statement with the rows \<open>rs\<close>\<close>
  "serving rs =
     \<lparr>create_pool = Inr 1, acquire = None, cursor = None,
      execute = (\<lambda>sql. Inr (plain_cursor rs)), time = 0, runtime = excerpt\<rparr>"

definition rejecting :: "exn \<Rightarrow> driver" where
  \<comment> \<open>a server that is up and answers every statement with the error \<open>e\<close>\<close>
  "rejecting e =
     \<lparr>create_pool = Inr 1, acquire = None, cursor = None,
      execute = (\<lambda>sql. Inl e), time = 0, runtime = excerpt\<rparr>"

definition unreachable :: "exn \<Rightarrow> driver" where
  \<comment> \<open>a server to which no pool can be opened\<close>
  "unreachable e =
     \<lparr>create_pool = Inl e, acquire = None, cursor = None,
      execute = (\<lambda>sql. Inl e), time = 0, runtime = excerpt\<rparr>"

definition coded_column :: "pystr \<Rightarrow> int \<Rightarrow> descriptor" where
  \<comment> \<open>a column descriptor as \<open>pymysql\<close> gives it: the type code is an integer (3 for an
      integer column, 253 for a text column)\<close>
  "coded_column n code =
     \<lparr>desc_name = n, desc_type_code = TypeInt code, desc_display_size = PNone,
      desc_internal_size = PInt 11, desc_precision = PInt 11, desc_scale = PInt 0,
      desc_null_ok = PBool False\<rparr>"

definition serving_described :: "row list \<Rightarrow> descriptor list \<Rightarrow> driver" where
  \<comment> \<open>as \<open>serving\<close>, with the column descriptors \<open>ds\<close> in \<open>cursor.description\<close>\<close>
  "serving_described rs ds =
     \<lparr>create_pool = Inr 1, acquire = None, cursor = None,
      execute = (\<lambda>sql. Inr ((plain_cursor rs)\<lparr>description := Some ds\<rparr>)), time = 0,
      runtime = excerpt\<rparr>"

section \<open>Properties of the text functions and of the validator\<close>















section \<open>The statement type\<close>

lemma upper_char_space:
  assumes "upper_keeps_words I" "is_space c"
  shows "upper_char I c = [c]"
proof (cases "c < 128")
  case True
  have "\<not> (0x61 \<le> c \<and> c \<le> 0x7A)"
    using assms(2) by (auto simp: is_space_def whitespace_def)
  then show ?thesis using True by (auto simp: upper_char_def)
next
  case False
  then show ?thesis using assms by (simp add: upper_char_def upper_keeps_words_def)
qed

lemma upper_char_word:
  assumes "upper_keeps_words I" "\<not> is_space c"
  shows "upper_char I c \<noteq> [] \<and> list_all (\<lambda>x. \<not> is_space x) (upper_char I c)"
proof (cases "c < 128")
  case True
  have "0x61 \<le> c \<and> c \<le> 0x7A \<Longrightarrow> \<not> is_space (c - 0x20)"
    by (auto simp: is_space_def whitespace_def)
  then show ?thesis using True assms(2) by (auto simp: upper_char_def)
next
  case False
  then show ?thesis using assms by (simp add: upper_char_def upper_keeps_words_def)
qed

lemma upper_Nil [simp]: "upper I [] = []"
  by (simp add: upper_def)

lemma upper_Cons: "upper I (c # cs) = upper_char I c @ upper I cs"
  by (simp add: upper_def)

lemma upper_append: "upper I (xs @ ys) = upper I xs @ upper I ys"
  by (simp add: upper_def)

lemma upper_words:
  assumes "upper_keeps_words I" "list_all (\<lambda>x. \<not> is_space x) s"
  shows "list_all (\<lambda>x. \<not> is_space x) (upper I s) \<and> (upper I s = [] \<longleftrightarrow> s = [])"
  using assms(2)
proof (induction s)
  case Nil
  then show ?case by simp
next
  case (Cons c cs)
  then show ?case using upper_char_word [OF assms(1), of c] by (simp add: upper_Cons)
qed

lemma dropWhile_space_upper:
  assumes "upper_keeps_words I"
  shows "dropWhile is_space (upper I s) = upper I (dropWhile is_space s)"
proof (induction s)
  case Nil
  then show ?case by simp
next
  case (Cons c cs)
  show ?case
  proof (cases "is_space c")
    case True
    then show ?thesis
      using Cons.IH upper_char_space [OF assms True] by (simp add: upper_Cons)
  next
    case False
    from upper_char_word [OF assms False] obtain x xs where
      x: "upper_char I c = x # xs" "\<not> is_space x"
      by (cases "upper_char I c") auto
    then show ?thesis using False by (simp add: upper_Cons)
  qed
qed

lemma rstrip_upper:
  assumes "upper_keeps_words I"
  shows "rev (dropWhile is_space (rev (upper I s))) = upper I (rev (dropWhile is_space (rev s)))"
proof (induction s rule: rev_induct)
  case Nil
  then show ?case by simp
next
  case (snoc c cs)
  show ?case
  proof (cases "is_space c")
    case True
    then show ?thesis
      using snoc.IH upper_char_space [OF assms True] by (simp add: upper_append upper_Cons)
  next
    case False
    from upper_char_word [OF assms False] have
      w: "upper_char I c \<noteq> []" "list_all (\<lambda>x. \<not> is_space x) (upper_char I c)"
      by simp_all
    then have "\<not> is_space (last (upper_char I c))"
      by (metis last_in_set list_all_iff)
    then have "\<not> is_space (hd (rev (upper_char I c)))"
      using w(1) by (simp add: hd_rev)
    then have "dropWhile is_space (rev (upper_char I c) @ rev (upper I cs))
               = rev (upper_char I c) @ rev (upper I cs)"
      using w(1) by (cases "rev (upper_char I c)") simp_all
    then show ?thesis using False by (simp add: upper_append upper_Cons)
  qed
qed

lemma strip_upper:
  assumes "upper_keeps_words I"
  shows "strip (upper I s) = upper I (strip s)"
proof -
  have "strip (upper I s) = rev (dropWhile is_space (rev (upper I (dropWhile is_space s))))"
    by (simp add: strip_def dropWhile_space_upper [OF assms])
  also have "\<dots> = upper I (strip s)"
    by (simp add: rstrip_upper [OF assms] strip_def)
  finally show ?thesis .
qed

lemma split_acc_word:
  "list_all (\<lambda>x. \<not> is_space x) xs \<Longrightarrow> split_acc cur (xs @ rest) = split_acc (cur @ xs) rest"
  by (induction xs arbitrary: cur) simp_all

lemma split_acc_upper:
  assumes "upper_keeps_words I" "list_all (\<lambda>x. \<not> is_space x) cur"
  shows "split_acc (upper I cur) (upper I s) = map (upper I) (split_acc cur s)"
  using assms(2)
proof (induction s arbitrary: cur)
  case Nil
  then show ?case using upper_words [OF assms(1), of cur] by simp
next
  case (Cons c cs)
  note n = upper_words [OF assms(1) Cons.prems]
  show ?case
  proof (cases "is_space c")
    case True
    then show ?thesis
      using Cons.IH [of "[]"] upper_char_space [OF assms(1) True] n
      by (simp add: upper_Cons)
  next
    case False
    have w: "list_all (\<lambda>x. \<not> is_space x) (upper_char I c)"
      using upper_char_word [OF assms(1) False] by simp
    have "list_all (\<lambda>x. \<not> is_space x) (cur @ [c])" using Cons.prems False by simp
    from Cons.IH [OF this] show ?thesis
      using False split_acc_word [OF w, of "upper I cur" "upper I cs"]
      by (simp add: upper_Cons upper_append)
  qed
qed

lemma split_upper:
  "upper_keeps_words I \<Longrightarrow> split (upper I s) = map (upper I) (split s)"
  using split_acc_upper [of I "[]" s] by (simp add: split_def)

lemma first_token_eq:
  "upper_keeps_words I \<Longrightarrow>
   first_token I q = (case split (strip q) of
                      [] \<Rightarrow> Inl (Exn (lit ''IndexError'') (lit ''list index out of range''))
                    | t # ts \<Rightarrow> Inr (upper I t))"
  by (simp add: first_token_def strip_upper split_upper split: list.splits)

lemma shape_result_kind:
  assumes "upper_keeps_words I" "shape_result I cur q l fm t = Inr r"
  shows "\<exists>tok ts. split (strip q) = tok # ts \<and> query_type r = Some (upper I tok) \<and>
           (case statement_kind (upper I tok) of
              Read \<Rightarrow> rows r \<noteq> None \<and> limited r \<noteq> None
            | Mutation \<Rightarrow> affected_rows r \<noteq> None
            | Definition \<Rightarrow> ddl_executed r = Some True
            | Other \<Rightarrow> rows r \<noteq> None \<and> limited r = None)"
proof (cases "split (strip q)")
  case Nil
  then show ?thesis using assms by (simp add: shape_result_def first_token_eq)
next
  case (Cons tok ts)
  then have ft: "first_token I q = Inr (upper I tok)" using assms(1) by (simp add: first_token_eq)
  show ?thesis
  proof (cases "statement_kind (upper I tok)")
    case Read
    then show ?thesis using assms Cons ft
      by (auto simp: shape_result_def Let_def empty_result_def split: sum.splits if_splits)
  next
    case Mutation
    then show ?thesis using assms Cons ft
      by (auto simp: shape_result_def Let_def empty_result_def split: sum.splits if_splits)
  next
    case Definition
    then show ?thesis using assms Cons ft
      by (auto simp: shape_result_def Let_def empty_result_def split: sum.splits if_splits)
  next
    case Other
    then show ?thesis using assms Cons ft
      by (auto simp: shape_result_def Let_def empty_result_def split: sum.splits if_splits)
  qed
qed

lemmas text_evals = strip_def upper_def lower_def upper_char_def lower_char_def is_space_def
  whitespace_def split_def lit_def

text \<open>
  Claim C7. The statement type is the first whitespace-delimited token of the trimmed
  text, in upper case; a text without a token has no type (the index raises). Two texts
  whose first tokens agree up to case have the same type, and the type alone selects the
  shape of the result: \<open>SELECT\<close> is a read, \<open>INSERT\<close>, \<open>UPDATE\<close> and \<open>DELETE\<close> are
  mutations, \<open>CREATE\<close>, \<open>ALTER\<close> and \<open>DROP\<close> are definitions, every other token
  (\<open>SHOW\<close>, \<open>DESCRIBE\<close>) is of the other kind. This uses one fact of \<open>str.upper()\<close>:
  it leaves whitespace as it is and gives no whitespace for another character.
\<close>

theorem statement_type_by_first_token:
  assumes "upper_keeps_words I"
  shows "first_token I q = (case split (strip q) of
                      [] \<Rightarrow> Inl (Exn (lit ''IndexError'') (lit ''list index out of range''))
                    | t # ts \<Rightarrow> Inr (upper I t))
   \<and> (\<forall>q'. map (upper I) (take 1 (split (strip q'))) = map (upper I) (take 1 (split (strip q)))
          \<longrightarrow> first_token I q' = first_token I q)
   \<and> (\<forall>cur l fm t r. shape_result I cur q l fm t = Inr r \<longrightarrow>
        (\<exists>tok ts. split (strip q) = tok # ts \<and> query_type r = Some (upper I tok) \<and>
           (case statement_kind (upper I tok) of
              Read \<Rightarrow> rows r \<noteq> None \<and> limited r \<noteq> None
            | Mutation \<Rightarrow> affected_rows r \<noteq> None
            | Definition \<Rightarrow> ddl_executed r = Some True
            | Other \<Rightarrow> rows r \<noteq> None \<and> limited r = None)))
   \<and> statement_kind (lit ''SELECT'') = Read
   \<and> statement_kind (lit ''INSERT'') = Mutation \<and> statement_kind (lit ''UPDATE'') = Mutation
   \<and> statement_kind (lit ''DELETE'') = Mutation
   \<and> statement_kind (lit ''CREATE'') = Definition \<and> statement_kind (lit ''ALTER'') = Definition
   \<and> statement_kind (lit ''DROP'') = Definition
   \<and> (\<forall>t. t \<notin> set [lit ''SELECT'', lit ''INSERT'', lit ''UPDATE'', lit ''DELETE'', lit ''CREATE'', lit ''ALTER'', lit ''DROP'']
          \<longrightarrow> statement_kind t = Other)
   \<and> statement_kind (lit ''SHOW'') = Other \<and> statement_kind (lit ''DESCRIBE'') = Other
   \<and> first_token I (lit ''select * from t'') = Inr (lit ''SELECT'')
   \<and> first_token I (lit ''SELECT * FROM t'') = Inr (lit ''SELECT'')"
proof (intro conjI)
  show "first_token I q = (case split (strip q) of
                      [] \<Rightarrow> Inl (Exn (lit ''IndexError'') (lit ''list index out of range''))
                    | t # ts \<Rightarrow> Inr (upper I t))"
    using assms by (rule first_token_eq)
  show "\<forall>q'. map (upper I) (take 1 (split (strip q'))) = map (upper I) (take 1 (split (strip q)))
          \<longrightarrow> first_token I q' = first_token I q"
    using assms by (auto simp: first_token_eq split: list.splits)
  show "\<forall>cur l fm t r. shape_result I cur q l fm t = Inr r \<longrightarrow>
        (\<exists>tok ts. split (strip q) = tok # ts \<and> query_type r = Some (upper I tok) \<and>
           (case statement_kind (upper I tok) of
              Read \<Rightarrow> rows r \<noteq> None \<and> limited r \<noteq> None
            | Mutation \<Rightarrow> affected_rows r \<noteq> None
            | Definition \<Rightarrow> ddl_executed r = Some True
            | Other \<Rightarrow> rows r \<noteq> None \<and> limited r = None))"
    using assms shape_result_kind by blast
  show "\<forall>t. t \<notin> set [lit ''SELECT'', lit ''INSERT'', lit ''UPDATE'', lit ''DELETE'', lit ''CREATE'', lit ''ALTER'', lit ''DROP'']
          \<longrightarrow> statement_kind t = Other"
    by (simp add: statement_kind_def)
  show "first_token I (lit ''select * from t'') = Inr (lit ''SELECT'')"
    by (simp add: first_token_def text_evals)
  show "first_token I (lit ''SELECT * FROM t'') = Inr (lit ''SELECT'')"
    by (simp add: first_token_def text_evals)
qed (simp_all add: statement_kind_def lit_def)

section \<open>Pool and event stream\<close>

subsection \<open>The connection pool\<close>

lemma get_connection_pool_inv:
  assumes "open_pools self = (case connection_pool self of None \<Rightarrow> [] | Some p \<Rightarrow> [p])"
  shows "open_pools (snd (get_connection_pool d self))
         = (case connection_pool (snd (get_connection_pool d self)) of None \<Rightarrow> [] | Some p \<Rightarrow> [p])"
  using assms by (auto simp: get_connection_pool_def split: option.splits sum.splits)

lemma close_connection_pool_inv:
  assumes "open_pools self = (case connection_pool self of None \<Rightarrow> [] | Some p \<Rightarrow> [p])"
  shows "open_pools (close_connection_pool self)
         = (case connection_pool (close_connection_pool self) of None \<Rightarrow> [] | Some p \<Rightarrow> [p])"
  using assms by (auto simp: close_connection_pool_def split: option.splits)

lemma pool_step_inv:
  assumes "open_pools self = (case connection_pool self of None \<Rightarrow> [] | Some p \<Rightarrow> [p])"
  shows "open_pools (pool_step self x)
         = (case connection_pool (pool_step self x) of None \<Rightarrow> [] | Some p \<Rightarrow> [p])"
proof (cases x)
  case (Pair d op)
  then show ?thesis
    using assms get_connection_pool_inv close_connection_pool_inv by (cases op) simp_all
qed

lemma pool_run_inv:
  assumes "open_pools self = (case connection_pool self of None \<Rightarrow> [] | Some p \<Rightarrow> [p])"
  shows "open_pools (pool_run ops self)
         = (case connection_pool (pool_run ops self) of None \<Rightarrow> [] | Some p \<Rightarrow> [p])"
  using assms unfolding pool_run_def
proof (induction ops arbitrary: self)
  case Nil
  then show ?case by simp
next
  case (Cons x xs)
  show ?case using Cons.IH [OF pool_step_inv [OF Cons.prems]] by simp
qed

text \<open>
  Claim C8. Acquiring the pool returns the cached pool and changes nothing when there is
  one; otherwise it creates one pool and caches it, or raises and caches nothing when the
  creation fails. Closing clears the cache, does nothing when no pool is cached, and is
  idempotent. After any sequence of acquire and close operations on a new tool, the open
  pools are exactly the cached one, so at most one pool is open.
\<close>

theorem pool_at_most_one:
  "(\<forall>p. connection_pool self = Some p \<longrightarrow> get_connection_pool d self = (Inr p, self))
   \<and> (\<forall>p. connection_pool self = None \<and> create_pool d = Inr p \<longrightarrow>
          get_connection_pool d self
          = (Inr p, self\<lparr>connection_pool := Some p, open_pools := open_pools self @ [p]\<rparr>))
   \<and> (\<forall>e. connection_pool self = None \<and> create_pool d = Inl e \<longrightarrow>
          get_connection_pool d self = (Inl e, self))
   \<and> connection_pool (close_connection_pool self) = None
   \<and> (connection_pool self = None \<longrightarrow> close_connection_pool self = self)
   \<and> close_connection_pool (close_connection_pool self) = close_connection_pool self
   \<and> open_pools (pool_run ops new_tool)
       = (case connection_pool (pool_run ops new_tool) of None \<Rightarrow> [] | Some p \<Rightarrow> [p])
   \<and> length (open_pools (pool_run ops new_tool)) \<le> 1"
proof -
  have inv: "open_pools (pool_run ops new_tool)
       = (case connection_pool (pool_run ops new_tool) of None \<Rightarrow> [] | Some p \<Rightarrow> [p])"
    by (rule pool_run_inv) (simp add: new_tool_def)
  then have le: "length (open_pools (pool_run ops new_tool)) \<le> 1"
    by (simp split: option.splits)
  have g1: "\<forall>p. connection_pool self = Some p \<longrightarrow> get_connection_pool d self = (Inr p, self)"
    by (simp add: get_connection_pool_def)
  have g2: "\<forall>p. connection_pool self = None \<and> create_pool d = Inr p \<longrightarrow>
          get_connection_pool d self
          = (Inr p, self\<lparr>connection_pool := Some p, open_pools := open_pools self @ [p]\<rparr>)"
    by (simp add: get_connection_pool_def)
  have g3: "\<forall>e. connection_pool self = None \<and> create_pool d = Inl e \<longrightarrow>
          get_connection_pool d self = (Inl e, self)"
    by (simp add: get_connection_pool_def)
  have c1: "connection_pool (close_connection_pool self) = None"
    by (cases "connection_pool self") (simp_all add: close_connection_pool_def)
  have c2: "connection_pool self = None \<longrightarrow> close_connection_pool self = self"
    by (simp add: close_connection_pool_def)
  have c3: "close_connection_pool (close_connection_pool self) = close_connection_pool self"
    using c1 by (simp add: close_connection_pool_def [of "close_connection_pool self"])
  from g1 g2 g3 c1 c2 c3 inv le show ?thesis by blast
qed

subsection \<open>The event stream\<close>

lemma enumerate_map_nth: "enumerate 0 xs = map (\<lambda>i. (i, xs ! i)) [0..<length xs]"
  by (rule nth_equalityI) (simp_all add: nth_enumerate_eq)

lemma row_events_select:
  "get_or (success r) False \<and> query_type r = Some (lit ''SELECT'') \<Longrightarrow>
   row_events r = map (\<lambda>i. RowEvent i (get_or (rows r) [] ! i)) [0..<length (get_or (rows r) [])]"
  by (simp add: row_events_def enumerate_map_nth)

lemma row_events_are_rows: "x \<in> set (row_events r) \<Longrightarrow> is_RowEvent x"
  by (auto simp: row_events_def)

lemma filter_none: "(\<And>x. x \<in> set xs \<Longrightarrow> \<not> P x) \<Longrightarrow> filter P xs = []"
  by (induction xs) auto

text \<open>
  Claim C4. When the executor returns a result, the stream is one metadata event, then
  the row events, then one summary event, and no other metadata or summary event. For a
  successful \<open>SELECT\<close> the row events are the rows of the result in order, with the
  indices 0, 1, ...; for every other result there is no row event. When the executor
  raises, the stream is a single error event; and an error event occurs only then.
\<close>

theorem astream_events_sequence:
  "(\<forall>r self1. execute_query d q db l fm self = (Inr r, self1) \<longrightarrow>
      fst (astream_events d q db l fm self) = metadata_event r # row_events r @ [summary_event r]
      \<and> is_MetadataEvent (metadata_event r) \<and> is_SummaryEvent (summary_event r)
      \<and> (\<forall>x \<in> set (row_events r). is_RowEvent x)
      \<and> length (filter is_MetadataEvent (fst (astream_events d q db l fm self))) = 1
      \<and> length (filter is_SummaryEvent (fst (astream_events d q db l fm self))) = 1
      \<and> (get_or (success r) False \<and> query_type r = Some (lit ''SELECT'') \<longrightarrow>
           row_events r = map (\<lambda>i. RowEvent i (get_or (rows r) [] ! i))
                              [0..<length (get_or (rows r) [])])
      \<and> (\<not> (get_or (success r) False \<and> query_type r = Some (lit ''SELECT'')) \<longrightarrow>
           row_events r = []))
   \<and> (\<forall>e self1. execute_query d q db l fm self = (Inl e, self1) \<longrightarrow>
        fst (astream_events d q db l fm self) = [ErrorEvent (exn_str e) (exn_class e)])
   \<and> ((\<exists>x \<in> set (fst (astream_events d q db l fm self)). is_ErrorEvent x)
        \<longleftrightarrow> (\<exists>e. fst (execute_query d q db l fm self) = Inl e))"
proof (intro conjI allI impI)
  fix r self1
  assume ex: "execute_query d q db l fm self = (Inr r, self1)"
  then show ev: "fst (astream_events d q db l fm self)
             = metadata_event r # row_events r @ [summary_event r]"
    by (simp add: astream_events_def)
  show "is_MetadataEvent (metadata_event r)" by (simp add: metadata_event_def)
  show "is_SummaryEvent (summary_event r)" by (simp add: summary_event_def)
  show "\<forall>x \<in> set (row_events r). is_RowEvent x" using row_events_are_rows by blast
  have f1: "filter is_MetadataEvent (row_events r) = []"
    by (rule filter_none) (auto dest: row_events_are_rows simp: event.disc_eq_case split: event.splits)
  have f2: "filter is_SummaryEvent (row_events r) = []"
    by (rule filter_none) (auto dest: row_events_are_rows simp: event.disc_eq_case split: event.splits)
  show "length (filter is_MetadataEvent (fst (astream_events d q db l fm self))) = 1"
    by (simp add: ev f1) (simp add: metadata_event_def summary_event_def)
  show "length (filter is_SummaryEvent (fst (astream_events d q db l fm self))) = 1"
    by (simp add: ev f2) (simp add: metadata_event_def summary_event_def)
  show "row_events r = map (\<lambda>i. RowEvent i (get_or (rows r) [] ! i))
                              [0..<length (get_or (rows r) [])]"
    if "get_or (success r) False \<and> query_type r = Some (lit ''SELECT'')"
    using that by (rule row_events_select)
  show "row_events r = []" if "\<not> (get_or (success r) False \<and> query_type r = Some (lit ''SELECT''))"
    using that by (auto simp: row_events_def)
next
  fix e self1
  assume "execute_query d q db l fm self = (Inl e, self1)"
  then show "fst (astream_events d q db l fm self) = [ErrorEvent (exn_str e) (exn_class e)]"
    by (simp add: astream_events_def)
next
  show "(\<exists>x \<in> set (fst (astream_events d q db l fm self)). is_ErrorEvent x)
        \<longleftrightarrow> (\<exists>e. fst (execute_query d q db l fm self) = Inl e)"
  proof (cases "execute_query d q db l fm self")
    case (Pair res self1)
    show ?thesis
    proof (cases res)
      case (Inl e)
      then show ?thesis using Pair by (simp add: astream_events_def)
    next
      case (Inr r)
      then show ?thesis using Pair
        by (auto simp: astream_events_def metadata_event_def summary_event_def
                 dest: row_events_are_rows split: event.splits)
    qed
  qed
qed

section \<open>The executor\<close>

subsection \<open>Exceptions in the guarded region\<close>

lemma use_database_fails:
  "given db \<Longrightarrow> execute d (lit ''USE '' @ fmt db) = Inl e \<Longrightarrow> fst (use_database d db s) = Some e"
  by (auto simp: use_database_def given_def fmt_def cursor_execute_def split: option.splits)

lemma use_database_ok:
  "\<not> given db \<or> (\<exists>c. execute d (lit ''USE '' @ fmt db) = Inr c) \<Longrightarrow> fst (use_database d db s) = None"
  by (auto simp: use_database_def given_def fmt_def cursor_execute_def split: option.splits)

lemma try_body_use_fails:
  "given db \<Longrightarrow> execute d (lit ''USE '' @ fmt db) = Inl e \<Longrightarrow> fst (try_body d q db l fm s) = Inl e"
  using use_database_fails [of db d e s]
  by (cases "use_database d db s") (simp add: try_body_def)

lemma try_body_after_use:
  assumes "\<not> given db \<or> (\<exists>c. execute d (lit ''USE '' @ fmt db) = Inr c)"
  shows "fst (try_body d q db l fm s)
         = (case execute d q of Inl e \<Rightarrow> Inl e | Inr cur \<Rightarrow> shape_result (runtime d) cur q l fm (time d))"
  using use_database_ok [OF assms, of s]
  by (cases "use_database d db s") (simp add: try_body_def cursor_execute_def split: sum.splits)

lemma shape_result_fetch_fails:
  assumes "fetch_raises cur = Some e" "first_token I q = Inr t" "statement_kind t \<in> {Read, Other}"
  shows "shape_result I cur q l fm tm = Inl e"
  using assms by (auto simp: shape_result_def fetchmany_def fetchall_def Let_def)

lemma execute_query_raises_iff:
  "(\<exists>e. fst (execute_query d q db l fm self) = Inl e) \<longleftrightarrow>
     (connection_pool self = None \<and> (\<exists>e. create_pool d = Inl e)) \<or> acquire d \<noteq> None \<or> cursor d \<noteq> None"
proof (cases "get_connection_pool d self")
  case (Pair res self1)
  have g: "(\<exists>e. res = Inl e) = (connection_pool self = None \<and> (\<exists>e. create_pool d = Inl e))"
    using Pair by (auto simp: get_connection_pool_def split: option.splits sum.splits)
  show ?thesis
  proof (cases res)
    case (Inl e)
    then show ?thesis using Pair g by (simp add: execute_query_def)
  next
    case (Inr p)
    then have ng: "\<not> (connection_pool self = None \<and> (\<exists>e. create_pool d = Inl e))" using g by simp
    show ?thesis
    proof (cases "acquire d")
      case (Some e)
      then show ?thesis using Pair Inr by (simp add: execute_query_def)
    next
      case None
      note acq = this
      show ?thesis
      proof (cases "cursor d")
        case (Some e)
        then show ?thesis using Pair Inr acq by (simp add: execute_query_def)
      next
        case None
        obtain tr self2 where tb: "try_body d q db l fm self1 = (tr, self2)"
          by (cases "try_body d q db l fm self1")
        have "\<not> (\<exists>e. fst (execute_query d q db l fm self) = Inl e)"
          using Pair Inr acq None tb by (cases tr) (simp_all add: execute_query_def)
        then show ?thesis using ng acq None by simp
      qed
    qed
  qed
qed

lemma execute_query_guarded:
  assumes "connection_pool self \<noteq> None \<or> (\<exists>p. create_pool d = Inr p)"
    and "acquire d = None" and "cursor d = None"
  shows "fst (execute_query d q db l fm self)
         = Inr (case fst (try_body d q db l fm (snd (get_connection_pool d self))) of
                  Inl e \<Rightarrow> failure_result q e (time d) | Inr r \<Rightarrow> r)"
    and "snd (execute_query d q db l fm self)
         = snd (try_body d q db l fm (snd (get_connection_pool d self)))"
proof -
  have "\<exists>p self1. get_connection_pool d self = (Inr p, self1)"
  proof (cases "connection_pool self")
    case None
    then obtain p where "create_pool d = Inr p" using assms(1) by auto
    then show ?thesis using None by (simp add: get_connection_pool_def)
  next
    case (Some p)
    then show ?thesis by (simp add: get_connection_pool_def)
  qed
  then obtain p self1 where g: "get_connection_pool d self = (Inr p, self1)" by blast
  obtain tr self2 where tb: "try_body d q db l fm self1 = (tr, self2)"
    by (cases "try_body d q db l fm self1")
  show "fst (execute_query d q db l fm self)
         = Inr (case fst (try_body d q db l fm (snd (get_connection_pool d self))) of
                  Inl e \<Rightarrow> failure_result q e (time d) | Inr r \<Rightarrow> r)"
    using g tb assms(2,3) by (cases tr) (simp_all add: execute_query_def)
  show "snd (execute_query d q db l fm self)
         = snd (try_body d q db l fm (snd (get_connection_pool d self)))"
    using g tb assms(2,3) by (cases tr) (simp_all add: execute_query_def)
qed

lemma failure_result_fields:
  "success (failure_result q e t) = Some False"
  "error (failure_result q e t) = Some (exn_str e)"
  "error_type (failure_result q e t) = Some (exn_class e)"
  "query (failure_result q e t) = Some q"
  "query_type (failure_result q e t) = None"
  "rows (failure_result q e t) = None"
  by (simp_all add: failure_result_def empty_result_def)

text \<open>
  Claim C5. The executor raises exactly when the pool cannot be created, the connection
  cannot be acquired or the cursor cannot be opened. Otherwise every exception of the
  guarded region (switching the database, executing the statement, fetching) becomes the
  failure result: \<open>success\<close> is false, \<open>error\<close> is the message of the exception and
  \<open>error_type\<close> the name of its class.
\<close>

theorem execute_query_failure_is_data:
  "((\<exists>e. fst (execute_query d q db l fm self) = Inl e) \<longleftrightarrow>
       (connection_pool self = None \<and> (\<exists>e. create_pool d = Inl e))
       \<or> acquire d \<noteq> None \<or> cursor d \<noteq> None)
   \<and> ((connection_pool self \<noteq> None \<or> (\<exists>p. create_pool d = Inr p))
         \<and> acquire d = None \<and> cursor d = None \<longrightarrow>
        fst (execute_query d q db l fm self)
        = Inr (case fst (try_body d q db l fm (snd (get_connection_pool d self))) of
                 Inl e \<Rightarrow> failure_result q e (time d) | Inr r \<Rightarrow> r))
   \<and> (given db \<and> execute d (lit ''USE '' @ fmt db) = Inl e \<longrightarrow>
        fst (try_body d q db l fm s) = Inl e)
   \<and> ((\<not> given db \<or> (\<exists>c. execute d (lit ''USE '' @ fmt db) = Inr c)) \<and> execute d q = Inl e \<longrightarrow>
        fst (try_body d q db l fm s) = Inl e)
   \<and> ((\<not> given db \<or> (\<exists>c. execute d (lit ''USE '' @ fmt db) = Inr c)) \<and> execute d q = Inr cur
        \<and> fetch_raises cur = Some e
        \<and> (\<exists>t. first_token (runtime d) q = Inr t \<and> statement_kind t \<in> {Read, Other}) \<longrightarrow>
        fst (try_body d q db l fm s) = Inl e)
   \<and> success (failure_result q e t) = Some False
   \<and> error (failure_result q e t) = Some (exn_str e)
   \<and> error_type (failure_result q e t) = Some (exn_class e)
   \<and> query (failure_result q e t) = Some q"
proof (intro conjI impI)
  show "(\<exists>e. fst (execute_query d q db l fm self) = Inl e) \<longleftrightarrow>
       (connection_pool self = None \<and> (\<exists>e. create_pool d = Inl e))
       \<or> acquire d \<noteq> None \<or> cursor d \<noteq> None"
    by (rule execute_query_raises_iff)
  show "fst (execute_query d q db l fm self)
        = Inr (case fst (try_body d q db l fm (snd (get_connection_pool d self))) of
                 Inl e \<Rightarrow> failure_result q e (time d) | Inr r \<Rightarrow> r)"
    if "(connection_pool self \<noteq> None \<or> (\<exists>p. create_pool d = Inr p))
         \<and> acquire d = None \<and> cursor d = None"
    using that execute_query_guarded(1) by blast
  show "fst (try_body d q db l fm s) = Inl e"
    if "given db \<and> execute d (lit ''USE '' @ fmt db) = Inl e"
    using that try_body_use_fails by blast
  show "fst (try_body d q db l fm s) = Inl e"
    if "(\<not> given db \<or> (\<exists>c. execute d (lit ''USE '' @ fmt db) = Inr c)) \<and> execute d q = Inl e"
    using that try_body_after_use [of db d q l fm s] by simp
  show "fst (try_body d q db l fm s) = Inl e"
    if h: "(\<not> given db \<or> (\<exists>c. execute d (lit ''USE '' @ fmt db) = Inr c)) \<and> execute d q = Inr cur
        \<and> fetch_raises cur = Some e
        \<and> (\<exists>t. first_token (runtime d) q = Inr t \<and> statement_kind t \<in> {Read, Other})"
  proof -
    from h obtain t where "first_token (runtime d) q = Inr t" "statement_kind t \<in> {Read, Other}" by blast
    with h have "shape_result (runtime d) cur q l fm (time d) = Inl e"
      using shape_result_fetch_fails by blast
    with h show ?thesis using try_body_after_use [of db d q l fm s] by simp
  qed
qed (simp_all add: failure_result_fields)

subsection \<open>The row limit\<close>

lemma shape_result_select:
  assumes "shape_result I cur q L fm t = Inr r" "query_type r = Some (lit ''SELECT'')" "0 < L"
  shows "rows r = Some (take (nat L) (result_rows cur))
         \<and> row_count r = Some (length (take (nat L) (result_rows cur)))
         \<and> limited r = Some (take (nat L) (result_rows cur) \<noteq> []
                              \<and> int (length (take (nat L) (result_rows cur))) = L)"
proof -
  from assms(1) obtain qt where qt: "first_token I q = Inr qt"
    by (cases "first_token I q") (simp_all add: shape_result_def)
  have "query_type r = Some qt"
    using assms(1) qt
    by (cases "statement_kind qt")
       (auto simp: shape_result_def Let_def empty_result_def split: sum.splits if_splits)
  then have "qt = lit ''SELECT''" using assms(2) by simp
  then have k: "statement_kind qt = Read" by (simp add: statement_kind_def)
  from assms(1) qt k obtain rs where rs: "fetchmany cur L = Inr rs"
    by (cases "fetchmany cur L") (simp_all add: shape_result_def Let_def)
  then have rs_eq: "rs = take (nat L) (result_rows cur)"
    using assms(3) by (auto simp: fetchmany_def split: option.splits)
  show ?thesis
    using assms(1) qt k rs rs_eq
    by (auto simp: shape_result_def Let_def empty_result_def split: sum.splits if_splits)
qed

lemma execute_query_success_shape:
  assumes "execute_query d q db l fm self = (Inr r, self1)" "get_or (success r) False"
    "execute d q = Inr cur"
  shows "shape_result (runtime d) cur q l fm (time d) = Inr r"
proof -
  have nf: "r \<noteq> failure_result q e (time d)" for e
    using assms(2) by (auto simp: failure_result_fields get_or_def)
  obtain res0 self0 where g: "get_connection_pool d self = (res0, self0)"
    by (cases "get_connection_pool d self")
  obtain tr self2 where tb: "try_body d q db l fm self0 = (tr, self2)"
    by (cases "try_body d q db l fm self0")
  have tr: "tr = Inr r"
    using assms(1) g tb nf
    by (cases tr) (auto simp: execute_query_def split: sum.splits option.splits)
  obtain u self3 where u: "use_database d db self0 = (u, self3)"
    by (cases "use_database d db self0")
  show ?thesis
    using tb tr u assms(3)
    by (cases u) (auto simp: try_body_def cursor_execute_def split: sum.splits)
qed

lemma select_limit:
  assumes "0 < L"
    and "execute_query d q db L fm self = (Inr r, self1)"
    and "get_or (success r) False"
    and "query_type r = Some (lit ''SELECT'')"
    and "execute d q = Inr cur"
  shows "rows r = Some (take (nat L) (result_rows cur))
         \<and> row_count r = Some (length (get_or (rows r) []))
         \<and> (length (result_rows cur) > nat L \<longrightarrow>
              length (get_or (rows r) []) = nat L \<and> limited r = Some True)
         \<and> (length (result_rows cur) < nat L \<longrightarrow>
              rows r = Some (result_rows cur) \<and> limited r = Some False)"
proof -
  have sh: "shape_result (runtime d) cur q L fm (time d) = Inr r"
    using assms(2,3,5) by (rule execute_query_success_shape)
  note f = shape_result_select [OF sh assms(4) assms(1)]
  have a: "rows r = Some (take (nat L) (result_rows cur))" using f by simp
  have b: "row_count r = Some (length (get_or (rows r) []))" using f by (simp add: get_or_def)
  have c: "length (get_or (rows r) []) = nat L \<and> limited r = Some True"
    if "length (result_rows cur) > nat L"
    using f that assms(1) by (auto simp: get_or_def)
  have e: "rows r = Some (result_rows cur) \<and> limited r = Some False"
    if "length (result_rows cur) < nat L"
    using f that assms(1) by (auto simp: get_or_def)
  from a b c e show ?thesis by blast
qed

section \<open>Dispatch and formatter\<close>

lemmas exec_evals = execute_query_def get_connection_pool_def try_body_def use_database_def
  cursor_execute_def shape_result_def first_token_def statement_kind_def fetchmany_def
  fetchall_def descriptors_def serving_def rejecting_def unreachable_def plain_cursor_def
  serving_described_def coded_column_def type_name_def excerpt_def
  new_tool_def empty_result_def failure_result_def given_def fmt_def get_or_def Let_def

lemma arun_eq:
  "fst (arun d q db l fm self)
     = (case fst (execute_query d q db l fm self) of
          Inr r \<Rightarrow> format_result (runtime d) r
        | Inl e \<Rightarrow> cross_mark @ lit '' MySQL Tool Error: '' @ exn_str e @ nl @ lit ''Query: '' @ q)"
  "snd (arun d q db l fm self) = snd (execute_query d q db l fm self)"
  by (cases "execute_query d q db l fm self"; cases "fst (execute_query d q db l fm self)";
      simp add: arun_def)+

lemma handle_call_tool_query:
  "handle_call_tool d (lit ''mysql_query'') (Some args) srv
   = ([fst (arun d (get_or (arg_query args) []) (arg_database args)
                 (get_or (arg_limit args) 100) (get_or (arg_fetch_metadata args) True)
                 (mysql_tool srv))],
      srv\<lparr>mysql_tool := snd (arun d (get_or (arg_query args) []) (arg_database args)
                 (get_or (arg_limit args) 100) (get_or (arg_fetch_metadata args) True)
                 (mysql_tool srv))\<rparr>)"
  by (simp add: handle_call_tool_def Let_def get_or_def split: prod.splits)

lemma try_body_statements:
  assumes "\<not> given db \<or> (\<exists>c. execute d (lit ''USE '' @ fmt db) = Inr c)"
  shows "statements (snd (try_body d q db l fm s))
         = statements s @ (if given db then [lit ''USE '' @ fmt db] else []) @ [q]"
  using assms
  by (auto simp: try_body_def use_database_def cursor_execute_def given_def fmt_def
           split: option.splits sum.splits prod.splits)

lemma get_connection_pool_keeps:
  "statements (snd (get_connection_pool d self)) = statements self"
  by (auto simp: get_connection_pool_def split: option.splits sum.splits)

lemma get_connection_pool_caches:
  "fst (get_connection_pool d self) = Inr p \<Longrightarrow>
   connection_pool (snd (get_connection_pool d self)) = Some p"
  by (auto simp: get_connection_pool_def split: option.splits sum.splits)

lemma try_body_keeps_pool:
  "connection_pool (snd (try_body d q db l fm s)) = connection_pool s"
  by (auto simp: try_body_def use_database_def cursor_execute_def
           split: option.splits sum.splits prod.splits if_splits)

text \<open>
  Claim C3. The dispatch handler calls \<open>_arun\<close> with the query argument as it came
  (the empty text when the key is absent), \<open>_arun\<close> calls the executor and formats what
  it returns, and neither looks at the text before the database does: for every query
  text, when the pool, the connection and the cursor are available and the database
  switch (if any) succeeds, a pool is cached and the text is passed to
  \<open>cursor.execute\<close>. The validator is not part of this path.
\<close>

theorem dispatch_reaches_database_unvalidated:
  "handle_call_tool d (lit ''mysql_query'') (Some args) srv
     = ([fst (arun d (get_or (arg_query args) []) (arg_database args)
                   (get_or (arg_limit args) 100) (get_or (arg_fetch_metadata args) True)
                   (mysql_tool srv))],
        srv\<lparr>mysql_tool := snd (arun d (get_or (arg_query args) []) (arg_database args)
                   (get_or (arg_limit args) 100) (get_or (arg_fetch_metadata args) True)
                   (mysql_tool srv))\<rparr>)
   \<and> fst (arun d q db l fm self)
       = (case fst (execute_query d q db l fm self) of
            Inr r \<Rightarrow> format_result (runtime d) r
          | Inl e \<Rightarrow> cross_mark @ lit '' MySQL Tool Error: '' @ exn_str e @ nl @ lit ''Query: '' @ q)
   \<and> snd (arun d q db l fm self) = snd (execute_query d q db l fm self)
   \<and> ((connection_pool self \<noteq> None \<or> (\<exists>p. create_pool d = Inr p))
        \<and> acquire d = None \<and> cursor d = None
        \<and> (\<not> given db \<or> (\<exists>c. execute d (lit ''USE '' @ fmt db) = Inr c)) \<longrightarrow>
        connection_pool (snd (execute_query d q db l fm self)) \<noteq> None
        \<and> statements (snd (execute_query d q db l fm self))
            = statements self @ (if given db then [lit ''USE '' @ fmt db] else []) @ [q])"
proof (intro conjI impI)
  assume h: "(connection_pool self \<noteq> None \<or> (\<exists>p. create_pool d = Inr p))
        \<and> acquire d = None \<and> cursor d = None
        \<and> (\<not> given db \<or> (\<exists>c. execute d (lit ''USE '' @ fmt db) = Inr c))"
  then have s: "snd (execute_query d q db l fm self)
                = snd (try_body d q db l fm (snd (get_connection_pool d self)))"
    using execute_query_guarded(2) by blast
  have "\<exists>p. fst (get_connection_pool d self) = Inr p"
    using h by (auto simp: get_connection_pool_def split: option.splits)
  then show "connection_pool (snd (execute_query d q db l fm self)) \<noteq> None"
    using s get_connection_pool_caches by (auto simp: try_body_keeps_pool)
  show "statements (snd (execute_query d q db l fm self))
            = statements self @ (if given db then [lit ''USE '' @ fmt db] else []) @ [q]"
    using h s try_body_statements [of db d q l fm "snd (get_connection_pool d self)"]
    by (simp add: get_connection_pool_keeps)
qed (simp_all add: handle_call_tool_query arun_eq)

theorem dispatch_reaches_database_unvalidated_witness:
  "validate_query excerpt (lit ''drop table users'')
     = Inl (Exn (lit ''ValueError'') (lit ''Query contains potentially dangerous pattern: drop table''))
   \<and> statements (snd (execute_query (serving []) (lit ''drop table users'') None 100 True new_tool))
       = [lit ''drop table users'']
   \<and> connection_pool (snd (execute_query (serving []) (lit ''drop table users'') None 100 True new_tool))
       \<noteq> None
   \<and> statements (snd (execute_query (serving []) [] None 100 True new_tool)) = [[]]
   \<and> snd (handle_call_tool (serving []) (lit ''mysql_query'')
             (Some (no_arguments\<lparr>arg_query := Some (lit ''drop table users'')\<rparr>))
             \<lparr>mysql_tool = new_tool, schema_tool = new_tool\<rparr>)
       = \<lparr>mysql_tool = snd (execute_query (serving []) (lit ''drop table users'') None 100 True new_tool),
          schema_tool = new_tool\<rparr>"
proof -
  have pre: "(connection_pool new_tool \<noteq> None \<or> (\<exists>p. create_pool (serving []) = Inr p))
        \<and> acquire (serving []) = None \<and> cursor (serving []) = None
        \<and> (\<not> given None \<or> (\<exists>c. execute (serving []) (lit ''USE '' @ fmt None) = Inr c))"
    by (simp add: serving_def given_def)
  have v: "validate_query excerpt (lit ''drop table users'')
     = Inl (Exn (lit ''ValueError'') (lit ''Query contains potentially dangerous pattern: drop table''))"
    by (simp add: validate_query_def dangerous_patterns_def dangerous_message_def text_evals)
  have a: "statements (snd (execute_query (serving []) (lit ''drop table users'') None 100 True new_tool))
       = [lit ''drop table users'']"
    "connection_pool (snd (execute_query (serving []) (lit ''drop table users'') None 100 True new_tool))
       \<noteq> None"
    using pre dispatch_reaches_database_unvalidated
            [of "serving []" no_arguments "\<lparr>mysql_tool = new_tool, schema_tool = new_tool\<rparr>"
                "lit ''drop table users''" None 100 True new_tool]
    by (simp_all add: given_def new_tool_def)
  have b: "statements (snd (execute_query (serving []) [] None 100 True new_tool)) = [[]]"
    using pre dispatch_reaches_database_unvalidated
            [of "serving []" no_arguments "\<lparr>mysql_tool = new_tool, schema_tool = new_tool\<rparr>"
                "[]" None 100 True new_tool]
    by (simp add: given_def new_tool_def)
  have c: "snd (handle_call_tool (serving []) (lit ''mysql_query'')
             (Some (no_arguments\<lparr>arg_query := Some (lit ''drop table users'')\<rparr>))
             \<lparr>mysql_tool = new_tool, schema_tool = new_tool\<rparr>)
       = \<lparr>mysql_tool = snd (execute_query (serving []) (lit ''drop table users'') None 100 True new_tool),
          schema_tool = new_tool\<rparr>"
    using dispatch_reaches_database_unvalidated
            [of "serving []" "no_arguments\<lparr>arg_query := Some (lit ''drop table users'')\<rparr>"
                "\<lparr>mysql_tool = new_tool, schema_tool = new_tool\<rparr>"
                "lit ''drop table users''" None 100 True new_tool]
    by (simp add: no_arguments_def get_or_def)
  from v a b c show ?thesis by blast
qed

text \<open>
  Claim C2. The query \<open>DROP TABLE users\<close> is one the validator rejects. Sent to the
  dispatch handler as a \<open>mysql_query\<close> call on a server whose tool has no pool yet, it
  is not rejected: a pool is created, the text is passed to \<open>cursor.execute\<close> and the
  success report of a definition statement is returned.
\<close>

theorem drop_table_reaches_database:
  "validate_query excerpt (lit ''DROP TABLE users'')
     = Inl (Exn (lit ''ValueError'') (lit ''Query contains potentially dangerous pattern: drop table''))
   \<and> handle_call_tool (serving []) (lit ''mysql_query'')
        (Some (no_arguments\<lparr>arg_query := Some (lit ''DROP TABLE users'')\<rparr>))
        \<lparr>mysql_tool = new_tool, schema_tool = new_tool\<rparr>
     = ([check_mark @ lit '' MySQL DROP Query Executed Successfully'' @ nl
         @ lit ''Query: DROP TABLE users'' @ nl @ lit ''DDL statement executed successfully'' @ nl],
        \<lparr>mysql_tool = \<lparr>connection_pool = Some 1, open_pools = [1],
                        statements = [lit ''DROP TABLE users'']\<rparr>,
         schema_tool = new_tool\<rparr>)"
proof
  show "validate_query excerpt (lit ''DROP TABLE users'')
     = Inl (Exn (lit ''ValueError'') (lit ''Query contains potentially dangerous pattern: drop table''))"
    by (simp add: validate_query_def dangerous_patterns_def dangerous_message_def text_evals)
  have e: "execute_query (serving []) (lit ''DROP TABLE users'') None 100 True new_tool
     = (Inr (empty_result\<lparr>query := Some (lit ''DROP TABLE users''), query_type := Some (lit ''DROP''),
                          success := Some True, timestamp := Some 0,
                          ddl_executed := Some True,
                          message := Some (lit ''DDL statement executed successfully'')\<rparr>),
        \<lparr>connection_pool = Some 1, open_pools = [1], statements = [lit ''DROP TABLE users'']\<rparr>)"
    by (simp add: exec_evals text_evals)
  show "handle_call_tool (serving []) (lit ''mysql_query'')
        (Some (no_arguments\<lparr>arg_query := Some (lit ''DROP TABLE users'')\<rparr>))
        \<lparr>mysql_tool = new_tool, schema_tool = new_tool\<rparr>
     = ([check_mark @ lit '' MySQL DROP Query Executed Successfully'' @ nl
         @ lit ''Query: DROP TABLE users'' @ nl @ lit ''DDL statement executed successfully'' @ nl],
        \<lparr>mysql_tool = \<lparr>connection_pool = Some 1, open_pools = [1],
                        statements = [lit ''DROP TABLE users'']\<rparr>,
         schema_tool = new_tool\<rparr>)"
    by (simp add: handle_call_tool_def arun_def e no_arguments_def get_or_def)
       (simp add: format_result_def empty_result_def serving_def get_or_def Let_def lit_def)
qed

text \<open>
  Claim C10. A call of the formatter leaves the result it was given as it was, and a
  second call on that result returns the same text as the first.
\<close>

theorem format_result_pure:
  "snd (format_result_call I r) = r
   \<and> fst (format_result_call I (snd (format_result_call I r))) = fst (format_result_call I r)
   \<and> fst (format_result_call I r) = format_result I r"
  by (simp add: format_result_call_def)

text \<open>
  Claim C6. The scenario of the claim: \<open>SELECT id, name FROM users LIMIT 3\<close> with the
  limit 2, a result set of three rows, column metadata requested (the default) and the
  type codes of \<open>cursor.description\<close> integers, as the driver gives them. The rows are
  fetched, but \<open>desc[1].__name__\<close> raises inside the guarded region: the executor returns
  the failure result, which has no rows, no row count and no limited flag. The same call
  without metadata returns the first two rows with \<open>row_count\<close> 2 and \<open>limited\<close> true.
\<close>

theorem select_with_metadata_fails:
  "fst (execute_query
          (serving_described [[PInt 1, PStr (lit ''ann'')], [PInt 2, PStr (lit ''bob'')],
                              [PInt 3, PStr (lit ''cy'')]]
             [coded_column (lit ''id'') 3, coded_column (lit ''name'') 253])
          (lit ''SELECT id, name FROM users LIMIT 3'') None 2 True new_tool)
     = Inr (failure_result (lit ''SELECT id, name FROM users LIMIT 3'')
              (Exn (lit ''AttributeError'')
                 (0x27 # lit ''int'' @ 0x27 # lit '' object has no attribute ''
                  @ 0x27 # lit ''__name__'' @ [0x27])) 0)
   \<and> success (failure_result (lit ''SELECT id, name FROM users LIMIT 3'')
              (Exn (lit ''AttributeError'')
                 (0x27 # lit ''int'' @ 0x27 # lit '' object has no attribute ''
                  @ 0x27 # lit ''__name__'' @ [0x27])) 0) = Some False
   \<and> rows (failure_result (lit ''SELECT id, name FROM users LIMIT 3'')
              (Exn (lit ''AttributeError'')
                 (0x27 # lit ''int'' @ 0x27 # lit '' object has no attribute ''
                  @ 0x27 # lit ''__name__'' @ [0x27])) 0) = None
   \<and> row_count (failure_result (lit ''SELECT id, name FROM users LIMIT 3'')
              (Exn (lit ''AttributeError'')
                 (0x27 # lit ''int'' @ 0x27 # lit '' object has no attribute ''
                  @ 0x27 # lit ''__name__'' @ [0x27])) 0) = None
   \<and> limited (failure_result (lit ''SELECT id, name FROM users LIMIT 3'')
              (Exn (lit ''AttributeError'')
                 (0x27 # lit ''int'' @ 0x27 # lit '' object has no attribute ''
                  @ 0x27 # lit ''__name__'' @ [0x27])) 0) = None
   \<and> fst (execute_query
          (serving_described [[PInt 1, PStr (lit ''ann'')], [PInt 2, PStr (lit ''bob'')],
                              [PInt 3, PStr (lit ''cy'')]]
             [coded_column (lit ''id'') 3, coded_column (lit ''name'') 253])
          (lit ''SELECT id, name FROM users LIMIT 3'') None 2 False new_tool)
     = Inr (empty_result\<lparr>query := Some (lit ''SELECT id, name FROM users LIMIT 3''),
              query_type := Some (lit ''SELECT''), success := Some True, timestamp := Some 0,
              rows := Some [[PInt 1, PStr (lit ''ann'')], [PInt 2, PStr (lit ''bob'')]],
              row_count := Some 2, limited := Some True\<rparr>)"
proof (intro conjI)
  show "fst (execute_query
          (serving_described [[PInt 1, PStr (lit ''ann'')], [PInt 2, PStr (lit ''bob'')],
                              [PInt 3, PStr (lit ''cy'')]]
             [coded_column (lit ''id'') 3, coded_column (lit ''name'') 253])
          (lit ''SELECT id, name FROM users LIMIT 3'') None 2 True new_tool)
     = Inr (failure_result (lit ''SELECT id, name FROM users LIMIT 3'')
              (Exn (lit ''AttributeError'')
                 (0x27 # lit ''int'' @ 0x27 # lit '' object has no attribute ''
                  @ 0x27 # lit ''__name__'' @ [0x27])) 0)"
    by (simp add: exec_evals text_evals)
  show "fst (execute_query
          (serving_described [[PInt 1, PStr (lit ''ann'')], [PInt 2, PStr (lit ''bob'')],
                              [PInt 3, PStr (lit ''cy'')]]
             [coded_column (lit ''id'') 3, coded_column (lit ''name'') 253])
          (lit ''SELECT id, name FROM users LIMIT 3'') None 2 False new_tool)
     = Inr (empty_result\<lparr>query := Some (lit ''SELECT id, name FROM users LIMIT 3''),
              query_type := Some (lit ''SELECT''), success := Some True, timestamp := Some 0,
              rows := Some [[PInt 1, PStr (lit ''ann'')], [PInt 2, PStr (lit ''bob'')]],
              row_count := Some 2, limited := Some True\<rparr>)"
    by (simp add: exec_evals text_evals)
qed (simp_all add: failure_result_fields failure_result_def empty_result_def)

section \<open>The schema inspector\<close>

lemma six_fields:
  "length r = 6 \<Longrightarrow> \<exists>a b c d e f. r = [a, b, c, d, e, f]"
  by (auto simp: numeral_eq_Suc length_Suc_conv)

lemma describe_line_six: "length r = 6 \<Longrightarrow> \<exists>l. describe_line r = Inr l"
  using six_fields [of r] by (auto simp: describe_line_def)

lemma describe_lines_six:
  "\<forall>r \<in> set rs. length r = 6 \<Longrightarrow>
   \<exists>ls. describe_lines rs = Inr (concat ls) \<and> length ls = length rs
        \<and> (\<forall>i < length rs. describe_line (rs ! i) = Inr (ls ! i))"
proof (induction rs)
  case Nil
  then show ?case by simp
next
  case (Cons r rs)
  then obtain l where l: "describe_line r = Inr l"
    using describe_line_six [of r] by auto
  from Cons obtain ls where ls: "describe_lines rs = Inr (concat ls)" "length ls = length rs"
    "\<forall>i < length rs. describe_line (rs ! i) = Inr (ls ! i)"
    by auto
  have "describe_lines (r # rs) = Inr (concat (l # ls))" using l ls(1) by simp
  moreover have "length (l # ls) = length (r # rs)" using ls(2) by simp
  moreover have "\<forall>i < length (r # rs). describe_line ((r # rs) ! i) = Inr ((l # ls) ! i)"
    using l ls(3) by (auto simp: nth_Cons split: nat.splits)
  ultimately show ?case by blast
qed

lemma schema_arun_describe:
  "given table \<Longrightarrow> schema_arun d database table inc self = describe_table d database table self"
  by (simp add: schema_arun_def)

text \<open>
  Claim C9. In the describe mode (a table is given, with or without a database), when
  the execution of the \<open>DESCRIBE\<close> statement succeeds: with no row, the report is that
  the table has no columns or doesn't exist; with rows of six fields each, the report is
  the header followed by one bullet line per row, in order, each built from the six
  fields of its row (name, type, key when true, \<open>NOT NULL\<close> when the nullable field is
  \<open>NO\<close>, default when not \<open>None\<close>, extra when true).
\<close>

theorem describe_table_report:
  assumes "given table"
    and "execute_query d (lit ''DESCRIBE '' @ (if given database then fmt database @ lit ''.'' else [])
                          @ fmt table) database 100 True self = (Inr r, self1)"
    and "get_or (success r) False"
  shows "(get_or (rows r) [] = [] \<longrightarrow>
            fst (schema_arun d database table inc self)
            = clipboard @ lit '' Table '' @ [0x27] @ fmt table @ [0x27]
              @ lit '' has no columns or doesn'' @ [0x27] @ lit ''t exist'')
         \<and> (get_or (rows r) [] \<noteq> [] \<and> (\<forall>row \<in> set (get_or (rows r) []). length row = 6) \<longrightarrow>
            (\<exists>ls. length ls = length (get_or (rows r) [])
                 \<and> (\<forall>i < length (get_or (rows r) []).
                        describe_line (get_or (rows r) [] ! i) = Inr (ls ! i))
                 \<and> fst (schema_arun d database table inc self)
                    = magnifier @ lit '' Schema for table '' @ [0x27] @ fmt table
                      @ [0x27] @ lit '':'' @ nl @ concat ls))
         \<and> describe_line [field, ftype, null, key, dflt, extra]
            = Inr (lit ''  '' @ bullet @ lit '' '' @ str field @ lit '': '' @ str ftype
                   @ (if truthy key then lit '' ('' @ str key @ lit '')'' else [])
                   @ (if null = PStr (lit ''NO'') then lit '' NOT NULL'' else [])
                   @ (if dflt \<noteq> PNone then lit '' DEFAULT '' @ str dflt else [])
                   @ (if truthy extra then lit '' '' @ str extra else [])
                   @ nl)"
proof (intro conjI impI)
  have s: "schema_arun d database table inc self = describe_table d database table self"
    using assms(1) by (rule schema_arun_describe)
  show "fst (schema_arun d database table inc self)
            = clipboard @ lit '' Table '' @ [0x27] @ fmt table @ [0x27]
              @ lit '' has no columns or doesn'' @ [0x27] @ lit ''t exist''"
    if "get_or (rows r) [] = []"
    using that assms(2,3) by (simp add: s describe_table_def Let_def)
  show "\<exists>ls. length ls = length (get_or (rows r) [])
                 \<and> (\<forall>i < length (get_or (rows r) []).
                        describe_line (get_or (rows r) [] ! i) = Inr (ls ! i))
                 \<and> fst (schema_arun d database table inc self)
                    = magnifier @ lit '' Schema for table '' @ [0x27] @ fmt table
                      @ [0x27] @ lit '':'' @ nl @ concat ls"
    if h: "get_or (rows r) [] \<noteq> [] \<and> (\<forall>row \<in> set (get_or (rows r) []). length row = 6)"
  proof -
    from h describe_lines_six [of "get_or (rows r) []"]
    obtain ls where ls: "describe_lines (get_or (rows r) []) = Inr (concat ls)"
      "length ls = length (get_or (rows r) [])"
      "\<forall>i < length (get_or (rows r) []). describe_line (get_or (rows r) [] ! i) = Inr (ls ! i)"
      by blast
    have "fst (schema_arun d database table inc self)
                    = magnifier @ lit '' Schema for table '' @ [0x27] @ fmt table
                      @ [0x27] @ lit '':'' @ nl @ concat ls"
      using h assms(2,3) ls(1) by (simp add: s describe_table_def Let_def)
    with ls(2,3) show ?thesis by blast
  qed
  show "describe_line [field, ftype, null, key, dflt, extra]
            = Inr (lit ''  '' @ bullet @ lit '' '' @ str field @ lit '': '' @ str ftype
                   @ (if truthy key then lit '' ('' @ str key @ lit '')'' else [])
                   @ (if null = PStr (lit ''NO'') then lit '' NOT NULL'' else [])
                   @ (if dflt \<noteq> PNone then lit '' DEFAULT '' @ str dflt else [])
                   @ (if truthy extra then lit '' '' @ str extra else [])
                   @ nl)"
    by (simp add: describe_line_def)
qed

section \<open>The theorems at concrete inputs\<close>



lemma upper_keeps_words_excerpt: "upper_keeps_words excerpt"
  by (auto simp: upper_keeps_words_def excerpt_def is_space_def whitespace_def lit_def)


theorem statement_type_by_first_token_witness:
  "first_token excerpt (lit ''show tables'') = Inr (lit ''SHOW'')
   \<and> first_token excerpt (lit ''  Show databases'') = first_token excerpt (lit ''show tables'')
   \<and> statement_kind (lit ''EXPLAIN'') = Other
   \<and> query_type (empty_result\<lparr>query := Some (lit ''show tables''),
        query_type := Some (lit ''SHOW''), success := Some True, timestamp := Some 0,
        rows := Some [], row_count := Some 0\<rparr>)
      = Some (upper excerpt (lit ''show''))
   \<and> first_token excerpt (lit ''SELECT'' @ [0xA0] @ lit ''id FROM t'') = Inr (lit ''SELECT'')
   \<and> first_token excerpt ([0x17F] @ lit ''elect 1'') = Inr (lit ''SELECT'')"
proof -
  note k = upper_keeps_words_excerpt
  note t = statement_type_by_first_token [OF k, of "lit ''show tables''"]
  have s: "split (strip (lit ''show tables'')) = [lit ''show'', lit ''tables'']"
    by (simp add: text_evals)
  have a: "first_token excerpt (lit ''show tables'') = Inr (lit ''SHOW'')"
    using t s by (simp add: text_evals)
  have "map (upper excerpt) (take 1 (split (strip (lit ''  Show databases''))))
        = map (upper excerpt) (take 1 (split (strip (lit ''show tables''))))"
    by (simp add: text_evals)
  then have b: "first_token excerpt (lit ''  Show databases'')
                = first_token excerpt (lit ''show tables'')"
    using t by blast
  have "lit ''EXPLAIN'' \<notin> set [lit ''SELECT'', lit ''INSERT'', lit ''UPDATE'', lit ''DELETE'',
                                  lit ''CREATE'', lit ''ALTER'', lit ''DROP'']"
    by (simp add: lit_def)
  then have c: "statement_kind (lit ''EXPLAIN'') = Other"
    using t by blast
  have sh: "shape_result excerpt (plain_cursor []) (lit ''show tables'') 100 True 0
        = Inr (empty_result\<lparr>query := Some (lit ''show tables''),
        query_type := Some (lit ''SHOW''), success := Some True, timestamp := Some 0,
        rows := Some [], row_count := Some 0\<rparr>)"
    by (simp add: exec_evals text_evals)
  from t sh have "\<exists>tok ts. split (strip (lit ''show tables'')) = tok # ts
      \<and> query_type (empty_result\<lparr>query := Some (lit ''show tables''),
        query_type := Some (lit ''SHOW''), success := Some True, timestamp := Some 0,
        rows := Some [], row_count := Some 0\<rparr>)
        = Some (upper excerpt tok)"
    by blast
  then have d: "query_type (empty_result\<lparr>query := Some (lit ''show tables''),
        query_type := Some (lit ''SHOW''), success := Some True, timestamp := Some 0,
        rows := Some [], row_count := Some 0\<rparr>)
      = Some (upper excerpt (lit ''show''))"
    using s by simp
  have s1: "split (strip (lit ''SELECT'' @ [0xA0] @ lit ''id FROM t''))
            = [lit ''SELECT'', lit ''id'', lit ''FROM'', lit ''t'']"
    by (simp add: text_evals)
  have e: "first_token excerpt (lit ''SELECT'' @ [0xA0] @ lit ''id FROM t'') = Inr (lit ''SELECT'')"
    using statement_type_by_first_token [OF k, of "lit ''SELECT'' @ [0xA0] @ lit ''id FROM t''"] s1
    by (simp add: text_evals)
  have s2: "split (strip ([0x17F] @ lit ''elect 1'')) = [[0x17F] @ lit ''elect'', lit ''1'']"
    by (simp add: text_evals)
  have f: "first_token excerpt ([0x17F] @ lit ''elect 1'') = Inr (lit ''SELECT'')"
    using statement_type_by_first_token [OF k, of "[0x17F] @ lit ''elect 1''"] s2
    by (simp add: text_evals excerpt_def)
  from a b c d e f show ?thesis by blast
qed

theorem pool_at_most_one_witness:
  "get_connection_pool (serving []) new_tool
     = (Inr 1, new_tool\<lparr>connection_pool := Some 1, open_pools := open_pools new_tool @ [1]\<rparr>)
   \<and> get_connection_pool (unreachable (Exn (lit ''OperationalError'') (lit ''no route'')))
        (new_tool\<lparr>connection_pool := Some 1, open_pools := [1]\<rparr>)
     = (Inr 1, new_tool\<lparr>connection_pool := Some 1, open_pools := [1]\<rparr>)
   \<and> get_connection_pool (unreachable (Exn (lit ''OperationalError'') (lit ''no route''))) new_tool
     = (Inl (Exn (lit ''OperationalError'') (lit ''no route'')), new_tool)
   \<and> close_connection_pool new_tool = new_tool
   \<and> open_pools (pool_run [(serving [], Acquire), (serving [], Acquire), (serving [], Close),
                             (serving [], Close), (serving [], Acquire)] new_tool) = [1]"
proof -
  have n: "connection_pool new_tool = None" by (simp add: new_tool_def)
  have a: "get_connection_pool (serving []) new_tool
     = (Inr 1, new_tool\<lparr>connection_pool := Some 1, open_pools := open_pools new_tool @ [1]\<rparr>)"
    using n pool_at_most_one [of new_tool "serving []"] by (simp add: serving_def)
  have b: "get_connection_pool (unreachable (Exn (lit ''OperationalError'') (lit ''no route'')))
        (new_tool\<lparr>connection_pool := Some 1, open_pools := [1]\<rparr>)
     = (Inr 1, new_tool\<lparr>connection_pool := Some 1, open_pools := [1]\<rparr>)"
    using pool_at_most_one [of "new_tool\<lparr>connection_pool := Some 1, open_pools := [1]\<rparr>"
                               "unreachable (Exn (lit ''OperationalError'') (lit ''no route''))"]
    by simp
  have c: "get_connection_pool (unreachable (Exn (lit ''OperationalError'') (lit ''no route''))) new_tool
     = (Inl (Exn (lit ''OperationalError'') (lit ''no route'')), new_tool)"
    using n pool_at_most_one [of new_tool "unreachable (Exn (lit ''OperationalError'') (lit ''no route''))"]
    by (simp add: unreachable_def)
  have d: "close_connection_pool new_tool = new_tool"
    using n pool_at_most_one [of new_tool] by blast
  have "connection_pool (pool_run [(serving [], Acquire), (serving [], Acquire), (serving [], Close),
                             (serving [], Close), (serving [], Acquire)] new_tool) = Some 1"
    by (simp add: pool_run_def get_connection_pool_def close_connection_pool_def new_tool_def
                  serving_def)
  then have e: "open_pools (pool_run [(serving [], Acquire), (serving [], Acquire), (serving [], Close),
                             (serving [], Close), (serving [], Acquire)] new_tool) = [1]"
    using pool_at_most_one [of new_tool "serving []"
            "[(serving [], Acquire), (serving [], Acquire), (serving [], Close),
              (serving [], Close), (serving [], Acquire)]"]
    by simp
  from a b c d e show ?thesis by blast
qed

theorem astream_events_sequence_witness:
  "fst (astream_events (serving [[PInt 1], [PInt 2]]) (lit ''select id from t'') None 100 True new_tool)
     = [MetadataEvent (Some (lit ''select id from t'')) (Some (lit ''SELECT'')) [] True None,
        RowEvent 0 [PInt 1], RowEvent 1 [PInt 2],
        SummaryEvent 2 False None None False None]
   \<and> fst (astream_events (unreachable (Exn (lit ''OperationalError'') (lit ''no route'')))
             (lit ''select id from t'') None 100 True new_tool)
     = [ErrorEvent (lit ''no route'') (lit ''OperationalError'')]"
proof -
  let ?r = "empty_result\<lparr>query := Some (lit ''select id from t''), query_type := Some (lit ''SELECT''),
              success := Some True, timestamp := Some 0, rows := Some [[PInt 1], [PInt 2]],
              row_count := Some 2, limited := Some False\<rparr>"
  let ?s = "\<lparr>connection_pool = Some 1, open_pools = [1], statements = [lit ''select id from t'']\<rparr>"
  have e: "execute_query (serving [[PInt 1], [PInt 2]]) (lit ''select id from t'') None 100 True new_tool
           = (Inr ?r, ?s)"
    by (simp add: exec_evals text_evals)
  have sel: "get_or (success ?r) False \<and> query_type ?r = Some (lit ''SELECT'')"
    by (simp add: get_or_def empty_result_def)
  from e sel astream_events_sequence
         [of "serving [[PInt 1], [PInt 2]]" "lit ''select id from t''" None 100 True new_tool]
  have "fst (astream_events (serving [[PInt 1], [PInt 2]]) (lit ''select id from t'') None 100 True new_tool)
          = metadata_event ?r # row_events ?r @ [summary_event ?r]"
    and "row_events ?r = map (\<lambda>i. RowEvent i (get_or (rows ?r) [] ! i))
                              [0..<length (get_or (rows ?r) [])]"
    by blast+
  then have a: "fst (astream_events (serving [[PInt 1], [PInt 2]]) (lit ''select id from t'') None 100 True new_tool)
     = [MetadataEvent (Some (lit ''select id from t'')) (Some (lit ''SELECT'')) [] True None,
        RowEvent 0 [PInt 1], RowEvent 1 [PInt 2],
        SummaryEvent 2 False None None False None]"
    by (simp add: metadata_event_def summary_event_def get_or_def empty_result_def upt_rec)
  have "execute_query (unreachable (Exn (lit ''OperationalError'') (lit ''no route'')))
             (lit ''select id from t'') None 100 True new_tool
        = (Inl (Exn (lit ''OperationalError'') (lit ''no route'')), new_tool)"
    by (simp add: exec_evals)
  with astream_events_sequence
         [of "unreachable (Exn (lit ''OperationalError'') (lit ''no route''))" "lit ''select id from t''" None 100
             True new_tool]
  have b: "fst (astream_events (unreachable (Exn (lit ''OperationalError'') (lit ''no route'')))
             (lit ''select id from t'') None 100 True new_tool)
     = [ErrorEvent (lit ''no route'') (lit ''OperationalError'')]"
    by simp
  from a b show ?thesis by blast
qed

theorem execute_query_failure_is_data_witness:
  "fst (execute_query (rejecting (Exn (lit ''ProgrammingError'') (lit ''syntax error''))) (lit ''SELEC 1'') None 100
          True new_tool)
     = Inr (failure_result (lit ''SELEC 1'') (Exn (lit ''ProgrammingError'') (lit ''syntax error'')) 0)
   \<and> error_type (failure_result (lit ''SELEC 1'') (Exn (lit ''ProgrammingError'') (lit ''syntax error'')) 0)
       = Some (lit ''ProgrammingError'')
   \<and> fst (execute_query (unreachable (Exn (lit ''OperationalError'') (lit ''no route''))) (lit ''SELECT 1'') None 100
            True new_tool)
       = Inl (Exn (lit ''OperationalError'') (lit ''no route''))"
proof -
  let ?d = "rejecting (Exn (lit ''ProgrammingError'') (lit ''syntax error''))"
  let ?e = "Exn (lit ''ProgrammingError'') (lit ''syntax error'')"
  note t = execute_query_failure_is_data [of ?d "lit ''SELEC 1''" None 100 True new_tool ?e
             "snd (get_connection_pool ?d new_tool)" _ 0]
  have pre: "(connection_pool new_tool \<noteq> None \<or> (\<exists>p. create_pool ?d = Inr p))
             \<and> acquire ?d = None \<and> cursor ?d = None"
    by (simp add: rejecting_def)
  have ex: "(\<not> given None \<or> (\<exists>c. execute ?d (lit ''USE '' @ fmt None) = Inr c))
            \<and> execute ?d (lit ''SELEC 1'') = Inl ?e"
    by (simp add: rejecting_def given_def)
  from t ex have tb: "fst (try_body ?d (lit ''SELEC 1'') None 100 True
                             (snd (get_connection_pool ?d new_tool))) = Inl ?e"
    by blast
  from t pre have "fst (execute_query ?d (lit ''SELEC 1'') None 100 True new_tool)
        = Inr (case fst (try_body ?d (lit ''SELEC 1'') None 100 True
                           (snd (get_connection_pool ?d new_tool))) of
                 Inl e \<Rightarrow> failure_result (lit ''SELEC 1'') e (time ?d) | Inr r \<Rightarrow> r)"
    by blast
  with tb have a: "fst (execute_query ?d (lit ''SELEC 1'') None 100 True new_tool)
     = Inr (failure_result (lit ''SELEC 1'') ?e 0)"
    by (simp add: rejecting_def)
  from t have b: "error_type (failure_result (lit ''SELEC 1'') ?e 0) = Some (lit ''ProgrammingError'')"
    by simp
  let ?u = "unreachable (Exn (lit ''OperationalError'') (lit ''no route''))"
  have "connection_pool new_tool = None \<and> (\<exists>e. create_pool ?u = Inl e)"
    by (simp add: new_tool_def unreachable_def)
  with execute_query_failure_is_data [of ?u "lit ''SELECT 1''" None 100 True new_tool]
  have "\<exists>e. fst (execute_query ?u (lit ''SELECT 1'') None 100 True new_tool) = Inl e"
    by blast
  then have c: "fst (execute_query ?u (lit ''SELECT 1'') None 100 True new_tool)
       = Inl (Exn (lit ''OperationalError'') (lit ''no route''))"
    by (auto simp: exec_evals)
  from a b c show ?thesis by blast
qed

theorem describe_table_report_witness:
  "fst (schema_arun (serving []) (Some (lit ''app'')) (Some (lit ''users'')) True new_tool)
     = clipboard @ lit '' Table '' @ [0x27] @ lit ''users'' @ [0x27]
       @ lit '' has no columns or doesn'' @ [0x27] @ lit ''t exist''
   \<and> fst (schema_arun (serving [[PStr (lit ''id''), PStr (lit ''int''), PStr (lit ''NO''), PStr (lit ''PRI''), PNone,
                                   PStr (lit ''auto_increment'')]])
             None (Some (lit ''users'')) True new_tool)
     = magnifier @ lit '' Schema for table '' @ [0x27] @ lit ''users'' @ [0x27] @ lit '':'' @ nl
       @ lit ''  '' @ bullet @ lit '' id: int (PRI) NOT NULL auto_increment'' @ nl"
proof -
  let ?r0 = "empty_result\<lparr>query := Some (lit ''DESCRIBE app.users''), query_type := Some (lit ''DESCRIBE''),
               success := Some True, timestamp := Some 0, rows := Some [], row_count := Some 0\<rparr>"
  have g: "given (Some (lit ''users''))" "given (Some (lit ''app''))" "\<not> given None"
    by (simp_all add: given_def lit_def)
  have e0: "execute_query (serving [])
              (lit ''DESCRIBE '' @ (if given (Some (lit ''app'')) then fmt (Some (lit ''app'')) @ lit ''.'' else [])
               @ fmt (Some (lit ''users''))) (Some (lit ''app'')) 100 True new_tool
            = (Inr ?r0, \<lparr>connection_pool = Some 1, open_pools = [1],
                         statements = [lit ''USE app'', lit ''DESCRIBE app.users'']\<rparr>)"
    by (simp add: exec_evals text_evals)
  have s0: "get_or (success ?r0) False" "get_or (rows ?r0) [] = []"
    by (simp_all add: get_or_def empty_result_def)
  from describe_table_report [OF g(1) e0 s0(1), of True] s0(2)
  have a: "fst (schema_arun (serving []) (Some (lit ''app'')) (Some (lit ''users'')) True new_tool)
     = clipboard @ lit '' Table '' @ [0x27] @ lit ''users'' @ [0x27]
       @ lit '' has no columns or doesn'' @ [0x27] @ lit ''t exist''"
    by (simp add: fmt_def)
  let ?row = "[PStr (lit ''id''), PStr (lit ''int''), PStr (lit ''NO''), PStr (lit ''PRI''), PNone, PStr (lit ''auto_increment'')]"
  let ?r1 = "empty_result\<lparr>query := Some (lit ''DESCRIBE users''), query_type := Some (lit ''DESCRIBE''),
               success := Some True, timestamp := Some 0, rows := Some [?row],
               row_count := Some 1\<rparr>"
  have e1: "execute_query (serving [?row])
              (lit ''DESCRIBE '' @ (if given None then fmt None @ lit ''.'' else [])
               @ fmt (Some (lit ''users''))) None 100 True new_tool
            = (Inr ?r1, \<lparr>connection_pool = Some 1, open_pools = [1],
                         statements = [lit ''DESCRIBE users'']\<rparr>)"
    by (simp add: exec_evals text_evals)
  have s1: "get_or (success ?r1) False" "get_or (rows ?r1) [] = [?row]"
    by (simp_all add: get_or_def empty_result_def)
  note t = describe_table_report [OF g(1) e1 s1(1), of True]
  have hyp: "get_or (rows ?r1) [] \<noteq> [] \<and> (\<forall>row \<in> set (get_or (rows ?r1) []). length row = 6)"
    by (simp add: get_or_def empty_result_def)
  from t hyp obtain ls where ls0: "length ls = length (get_or (rows ?r1) [])"
    "\<forall>i < length (get_or (rows ?r1) []). describe_line (get_or (rows ?r1) [] ! i) = Inr (ls ! i)"
    and ls3: "fst (schema_arun (serving [?row]) None (Some (lit ''users'')) True new_tool)
       = magnifier @ lit '' Schema for table '' @ [0x27] @ fmt (Some (lit ''users''))
         @ [0x27] @ lit '':'' @ nl @ concat ls"
    by blast
  from ls0(1) have ls1: "length ls = 1" by (simp only: s1(2)) simp
  from ls0(2) have "describe_line ([?row] ! 0) = Inr (ls ! 0)"
    by (simp only: s1(2)) simp
  then have ls2: "describe_line ?row = Inr (ls ! 0)" by simp
  note ls = ls1 ls2 ls3
  from ls(1) have c: "concat ls = ls ! 0"
    by (cases ls) simp_all
  have "describe_line ?row = Inr (lit ''  '' @ bullet @ lit '' id: int (PRI) NOT NULL auto_increment'' @ nl)"
    by (simp add: describe_line_def lit_def)
  with ls(2) have "ls ! 0 = lit ''  '' @ bullet @ lit '' id: int (PRI) NOT NULL auto_increment'' @ nl"
    by simp
  with ls(3) c have b: "fst (schema_arun (serving [?row]) None (Some (lit ''users'')) True new_tool)
     = magnifier @ lit '' Schema for table '' @ [0x27] @ lit ''users'' @ [0x27] @ lit '':'' @ nl
       @ lit ''  '' @ bullet @ lit '' id: int (PRI) NOT NULL auto_increment'' @ nl"
    by (simp add: fmt_def)
  from a b show ?thesis by blast
qed

end
